theory Spec2Isabelle
  imports Main "HOL-Library.Char_ord" "HOL-Library.List_Lexorder"
begin

section \<open>Python strings and dictionaries\<close>

text \<open>
  Python \<^verbatim>\<open>str\<close> values are modelled as \<^typ>\<open>string\<close>; one \<^typ>\<open>char\<close> stands for one
  code point below 256, which covers every identifier, dotted name and pattern of the
  server.  A \<^verbatim>\<open>dict\<close> is an association list in insertion order with unique keys.
\<close>

fun split_on :: "char \<Rightarrow> string \<Rightarrow> string list" where
  \<comment> \<open>\<^verbatim>\<open>s.split(c)\<close> for a one-character separator: never empty, keeps empty pieces\<close>
  "split_on c [] = [[]]"
| "split_on c (x # xs) =
     (if x = c then [] # split_on c xs
      else (case split_on c xs of [] \<Rightarrow> [[x]] | p # ps \<Rightarrow> (x # p) # ps))"

fun join :: "string \<Rightarrow> string list \<Rightarrow> string" where
  \<comment> \<open>\<^verbatim>\<open>sep.join(parts)\<close>\<close>
  "join sep [] = []"
| "join sep [p] = p"
| "join sep (p # q # ps) = p @ sep @ join sep (q # ps)"

definition py_slice_to :: "'a list \<Rightarrow> int \<Rightarrow> 'a list" where
  \<comment> \<open>\<^verbatim>\<open>xs[:n]\<close>: a negative bound counts from the end\<close>
  "py_slice_to xs n =
     (if 0 \<le> n then take (nat n) xs else take (nat (int (length xs) + n)) xs)"

fun dict_set :: "('k \<times> 'v) list \<Rightarrow> 'k \<Rightarrow> 'v \<Rightarrow> ('k \<times> 'v) list" where
  \<comment> \<open>\<^verbatim>\<open>d[k] = v\<close>: an existing key keeps its position, a new key goes last\<close>
  "dict_set [] k v = [(k, v)]"
| "dict_set ((k', v') # d) k v =
     (if k' = k then (k, v) # d else (k', v') # dict_set d k v)"

definition dict_update :: "('k \<times> 'v) list \<Rightarrow> ('k \<times> 'v) list \<Rightarrow> ('k \<times> 'v) list" where
  \<comment> \<open>\<^verbatim>\<open>d.update(other)\<close>\<close>
  "dict_update d other = foldl (\<lambda>acc (k, v). dict_set acc k v) d other"

definition dict_get :: "('k \<times> 'v) list \<Rightarrow> 'k \<Rightarrow> 'v \<Rightarrow> 'v" where
  \<comment> \<open>\<^verbatim>\<open>d.get(k, default)\<close>\<close>
  "dict_get d k dflt = (case map_of d k of Some v \<Rightarrow> v | None \<Rightarrow> dflt)"

fun fromkeys :: "'a list \<Rightarrow> 'a list" where
  \<comment> \<open>\<^verbatim>\<open>list(dict.fromkeys(xs))\<close>: duplicates removed, first occurrence kept\<close>
  "fromkeys [] = []"
| "fromkeys (x # xs) = x # fromkeys (filter (\<lambda>y. y \<noteq> x) xs)"

fun lookup_last :: "('k \<times> 'v) list \<Rightarrow> 'k \<Rightarrow> 'v option \<Rightarrow> 'v option" where
  \<comment> \<open>the value that assigning the pairs one after the other leaves at a key\<close>
  "lookup_last [] k r = r"
| "lookup_last ((k', v) # d) k r = lookup_last d k (if k' = k then Some v else r)"

section \<open>Domain rules: shortening tables and toolsets\<close>

definition get_resource_shortening_rules :: "(string \<times> string) list" where
  \<comment> \<open>GcoreDomainHandler.get_resource_shortening_rules\<close>
  "get_resource_shortening_rules =
     [(''instances'', ''insts''),
      (''flavors'', ''flavs''),
      (''images'', ''imgs''),
      (''snapshots'', ''snaps''),
      (''volumes'', ''vols''),
      (''networks'', ''nets''),
      (''subnets'', ''subs''),
      (''routers'', ''rtrs''),
      (''ports'', ''ports''),
      (''floating_ips'', ''fips''),
      (''reserved_fixed_ips'', ''rfips''),
      (''load_balancers'', ''lb''),
      (''listeners'', ''lnrs''),
      (''pools'', ''pools''),
      (''members'', ''mbrs''),
      (''health_monitors'', ''hms''),
      (''l7policies'', ''l7pols''),
      (''l7rules'', ''l7rules''),
      (''security_groups'', ''secgrps''),
      (''security_group_rules'', ''secgrp_rules''),
      (''placement_groups'', ''placegrps''),
      (''ssh_keys'', ''sshkeys''),
      (''keypairs'', ''keypairs''),
      (''quotas'', ''quotas''),
      (''projects'', ''projs''),
      (''regions'', ''rgns''),
      (''secrets'', ''secr''),
      (''clusters'', ''clstrs''),
      (''nodes'', ''nodes''),
      (''registries'', ''regs''),
      (''file_shares'', ''fshares''),
      (''ai_clusters'', ''ai_clstrs''),
      (''inference'', ''infer''),
      (''deployments'', ''deploys'')]"

definition get_method_shortening_rules :: "(string \<times> string) list" where
  \<comment> \<open>GcoreDomainHandler.get_method_shortening_rules\<close>
  "get_method_shortening_rules =
     [(''create'', ''new''),
      (''delete'', ''del''),
      (''list'', ''ls''),
      (''update'', ''upd''),
      (''replace'', ''repl''),
      (''assign_security_group'', ''assign_secgrp''),
      (''unassign_security_group'', ''unassign_secgrp''),
      (''add_to_placement_group'', ''add_placegrp''),
      (''remove_from_placement_group'', ''rm_placegrp''),
      (''disable_port_security'', ''dis_portsec''),
      (''enable_port_security'', ''en_portsec''),
      (''get_console'', ''console''),
      (''resize'', ''resize''),
      (''action'', ''action''),
      (''create_from_volume'', ''new_vol''),
      (''upload'', ''upload''),
      (''download'', ''download''),
      (''change_type'', ''chg_type''),
      (''revert_to_last_snapshot'', ''revert_snap''),
      (''attach_to_instance'', ''att_inst''),
      (''detach_from_instance'', ''det_inst''),
      (''extend'', ''extend''),
      (''create_snapshot'', ''snap''),
      (''revert'', ''revert''),
      (''get_capacity_by_region'', ''get_cap_region''),
      (''attach_subnet'', ''att_sub''),
      (''detach_subnet'', ''det_sub''),
      (''attach_router'', ''att_rtr''),
      (''detach_router'', ''det_rtr''),
      (''add_member'', ''add_mbr''),
      (''remove_member'', ''rm_mbr''),
      (''failover'', ''failover''),
      (''copy'', ''copy''),
      (''revert_to_default'', ''revert_def''),
      (''hard_reboot'', ''hard_reboot''),
      (''soft_reboot'', ''soft_reboot''),
      (''start'', ''start''),
      (''stop'', ''stop''),
      (''suspend'', ''suspend''),
      (''resume'', ''resume''),
      (''rebuild'', ''rebuild'')]"

definition additional_rules :: "(string \<times> string) list" where
  \<comment> \<open>the local table of get_shortening_rules\<close>
  "additional_rules =
     [(''interfaces'', ''ifaces''),
      (''metrics'', ''metr''),
      (''baremetal'', ''bm''),
      (''gpu_baremetal_clusters'', ''gpu_bm_clusters''),
      (''l7_policies'', ''l7pols''),
      (''health_monitors'', ''health_mon''),
      (''members'', ''membs''),
      (''statuses'', ''stats''),
      (''ip_ranges'', ''iprngs''),
      (''rules'', ''rls''),
      (''access_rules'', ''accessrls''),
      (''repositories'', ''repos''),
      (''artifacts'', ''arts''),
      (''users'', ''usrs''),
      (''tasks'', ''tsks''),
      (''quotas'', ''qotas''),
      (''requests'', ''reqs''),
      (''role_assignments'', ''roleasgns''),
      (''billing_reservations'', ''billresrvs''),
      (''models'', ''mdls''),
      (''logs'', ''logs''),
      (''registry_credentials'', ''regcreds''),
      (''resize'', ''resz''),
      (''get_console'', ''get_con''),
      (''action'', ''act''),
      (''list_suitable'', ''ls_suit''),
      (''list_for_resize'', ''ls_resz''),
      (''attach'', ''att''),
      (''detach'', ''det''),
      (''upload'', ''upl''),
      (''list'', ''ls''),
      (''get'', ''get''),
      (''powercycle_all_servers'', ''pwrall_srvs''),
      (''reboot_all_servers'', ''rebootall_srvs''),
      (''servers'', ''srvs''),
      (''powercycle'', ''pwrcycle''),
      (''failover'', ''failovr''),
      (''remove'', ''rm''),
      (''list_candidate_ports'', ''ls_cand_ports''),
      (''list_connected_ports'', ''ls_conn_ports''),
      (''replace_connected_ports'', ''repl_conn_ports''),
      (''update_connected_ports'', ''upd_conn_ports''),
      (''copy'', ''cp''),
      (''change_type'', ''chng_type''),
      (''create_multiple'', ''new_multi''),
      (''refresh_secret'', ''refresh_secr''),
      (''acknowledge_all'', ''ack_all''),
      (''acknowledge_one'', ''ack_one''),
      (''upload_tls_certificate'', ''upl_tls_cert''),
      (''get_api_key'', ''get_apikey'')]"

text \<open>The toolset lists of \<^verbatim>\<open>GcoreDomainHandler.get_toolset_definitions\<close>, one constant for each
  entry of the dictionary, and the dictionary itself.\<close>

definition domain_toolset_instances :: "string list" where
  "domain_toolset_instances =
     [''cloud.instances.create'',
      ''cloud.instances.list'',
      ''cloud.instances.get'',
      ''cloud.instances.update'',
      ''cloud.instances.delete'',
      ''cloud.instances.assign_security_group'',
      ''cloud.instances.unassign_security_group'',
      ''cloud.instances.resize'',
      ''cloud.instances.get_console'',
      ''cloud.instances.add_to_placement_group'',
      ''cloud.instances.remove_from_placement_group'',
      ''cloud.instances.disable_port_security'',
      ''cloud.instances.enable_port_security'',
      ''cloud.instances.action'',
      ''cloud.instances.flavors.list'',
      ''cloud.instances.flavors.list_suitable'',
      ''cloud.instances.flavors.list_for_resize'',
      ''cloud.instances.interfaces.list'',
      ''cloud.instances.interfaces.attach'',
      ''cloud.instances.interfaces.detach'',
      ''cloud.instances.images.create_from_volume'',
      ''cloud.instances.images.list'',
      ''cloud.instances.images.get'',
      ''cloud.instances.images.update'',
      ''cloud.instances.images.delete'',
      ''cloud.instances.images.upload'',
      ''cloud.instances.metrics.list'']"

definition domain_toolset_baremetal :: "string list" where
  "domain_toolset_baremetal =
     [''cloud.baremetal.create'',
      ''cloud.baremetal.list'',
      ''cloud.baremetal.get'',
      ''cloud.baremetal.update'',
      ''cloud.baremetal.delete'',
      ''cloud.baremetal.action'',
      ''cloud.baremetal.resize'',
      ''cloud.baremetal.get_console'',
      ''cloud.baremetal.assign_security_group'',
      ''cloud.baremetal.unassign_security_group'',
      ''cloud.baremetal.add_to_placement_group'',
      ''cloud.baremetal.remove_from_placement_group'',
      ''cloud.baremetal.disable_port_security'',
      ''cloud.baremetal.enable_port_security'',
      ''cloud.baremetal.flavors.list'',
      ''cloud.baremetal.flavors.list_suitable'',
      ''cloud.baremetal.interfaces.list'',
      ''cloud.baremetal.interfaces.attach'',
      ''cloud.baremetal.interfaces.detach'',
      ''cloud.baremetal.metrics.list'']"

definition domain_toolset_gpu :: "string list" where
  "domain_toolset_gpu =
     [''cloud.gpu_baremetal_clusters.create'',
      ''cloud.gpu_baremetal_clusters.list'',
      ''cloud.gpu_baremetal_clusters.get'',
      ''cloud.gpu_baremetal_clusters.update'',
      ''cloud.gpu_baremetal_clusters.delete'',
      ''cloud.gpu_baremetal_clusters.flavors.list'',
      ''cloud.gpu_baremetal_clusters.servers.create'',
      ''cloud.gpu_baremetal_clusters.servers.list'',
      ''cloud.gpu_baremetal_clusters.servers.get'',
      ''cloud.gpu_baremetal_clusters.servers.delete'',
      ''cloud.gpu_baremetal_clusters.images.list'',
      ''cloud.gpu_baremetal_clusters.images.get'',
      ''cloud.gpu_baremetal_clusters.images.update'',
      ''cloud.gpu_baremetal_clusters.images.delete'']"

definition domain_toolset_networking :: "string list" where
  "domain_toolset_networking =
     [''cloud.networks.create'',
      ''cloud.networks.list'',
      ''cloud.networks.get'',
      ''cloud.networks.update'',
      ''cloud.networks.delete'',
      ''cloud.networks.subnets.create'',
      ''cloud.networks.subnets.list'',
      ''cloud.networks.subnets.get'',
      ''cloud.networks.subnets.update'',
      ''cloud.networks.subnets.delete'',
      ''cloud.networks.routers.create'',
      ''cloud.networks.routers.list'',
      ''cloud.networks.routers.get'',
      ''cloud.networks.routers.update'',
      ''cloud.networks.routers.delete'',
      ''cloud.networks.routers.attach_subnet'',
      ''cloud.networks.routers.detach_subnet'',
      ''cloud.floating_ips.create'',
      ''cloud.floating_ips.list'',
      ''cloud.floating_ips.get'',
      ''cloud.floating_ips.update'',
      ''cloud.floating_ips.delete'',
      ''cloud.reserved_fixed_ips.create'',
      ''cloud.reserved_fixed_ips.list'',
      ''cloud.reserved_fixed_ips.get'',
      ''cloud.reserved_fixed_ips.update'',
      ''cloud.reserved_fixed_ips.delete'',
      ''cloud.load_balancers.create'',
      ''cloud.load_balancers.list'',
      ''cloud.load_balancers.get'',
      ''cloud.load_balancers.update'',
      ''cloud.load_balancers.delete'',
      ''cloud.load_balancers.flavors.list'',
      ''cloud.load_balancers.listeners.create'',
      ''cloud.load_balancers.listeners.list'',
      ''cloud.load_balancers.listeners.get'',
      ''cloud.load_balancers.listeners.update'',
      ''cloud.load_balancers.listeners.delete'',
      ''cloud.load_balancers.pools.create'',
      ''cloud.load_balancers.pools.list'',
      ''cloud.load_balancers.pools.get'',
      ''cloud.load_balancers.pools.update'',
      ''cloud.load_balancers.pools.delete'',
      ''cloud.load_balancers.l7policies.create'',
      ''cloud.load_balancers.l7policies.list'',
      ''cloud.load_balancers.l7policies.get'',
      ''cloud.load_balancers.l7policies.update'',
      ''cloud.load_balancers.l7policies.delete'']"

definition domain_toolset_security :: "string list" where
  "domain_toolset_security =
     [''cloud.security_groups.create'',
      ''cloud.security_groups.list'',
      ''cloud.security_groups.get'',
      ''cloud.security_groups.update'',
      ''cloud.security_groups.delete'',
      ''cloud.security_groups.copy'',
      ''cloud.security_groups.revert_to_default'',
      ''cloud.security_groups.rules.create'',
      ''cloud.security_groups.rules.replace'',
      ''cloud.security_groups.rules.delete'',
      ''cloud.ssh_keys.create'',
      ''cloud.ssh_keys.list'',
      ''cloud.ssh_keys.get'',
      ''cloud.ssh_keys.update'',
      ''cloud.ssh_keys.delete'',
      ''cloud.secrets.create'',
      ''cloud.secrets.list'',
      ''cloud.secrets.get'',
      ''cloud.secrets.update'',
      ''cloud.secrets.delete'']"

definition domain_toolset_storage :: "string list" where
  "domain_toolset_storage =
     [''cloud.volumes.create'',
      ''cloud.volumes.list'',
      ''cloud.volumes.get'',
      ''cloud.volumes.update'',
      ''cloud.volumes.delete'',
      ''cloud.volumes.resize'',
      ''cloud.volumes.change_type'',
      ''cloud.volumes.revert_to_last_snapshot'',
      ''cloud.volumes.attach_to_instance'',
      ''cloud.volumes.detach_from_instance'',
      ''cloud.volumes.snapshots.create'',
      ''cloud.volumes.snapshots.list'',
      ''cloud.volumes.snapshots.get'',
      ''cloud.volumes.snapshots.update'',
      ''cloud.volumes.snapshots.delete'',
      ''cloud.file_shares.create'',
      ''cloud.file_shares.list'',
      ''cloud.file_shares.get'',
      ''cloud.file_shares.update'',
      ''cloud.file_shares.delete'',
      ''cloud.file_shares.extend'',
      ''cloud.file_shares.get_capacity_by_region'']"

definition domain_toolset_management :: "string list" where
  "domain_toolset_management =
     [''cloud.projects.create'',
      ''cloud.projects.list'',
      ''cloud.projects.get'',
      ''cloud.projects.update'',
      ''cloud.projects.delete'',
      ''cloud.regions.list'',
      ''cloud.regions.get'',
      ''cloud.placement_groups.create'',
      ''cloud.placement_groups.list'',
      ''cloud.placement_groups.get'',
      ''cloud.placement_groups.update'',
      ''cloud.placement_groups.delete'',
      ''cloud.tasks.list'',
      ''cloud.tasks.get'',
      ''cloud.tasks.acknowledge_all'',
      ''cloud.tasks.acknowledge_one'',
      ''cloud.quotas.list'',
      ''cloud.quotas.get'']"

definition domain_toolset_ai :: "string list" where
  "domain_toolset_ai =
     [''cloud.ai_clusters.create'',
      ''cloud.ai_clusters.list'',
      ''cloud.ai_clusters.get'',
      ''cloud.ai_clusters.update'',
      ''cloud.ai_clusters.delete'',
      ''cloud.inference.deployments.create'',
      ''cloud.inference.deployments.list'',
      ''cloud.inference.deployments.get'',
      ''cloud.inference.deployments.update'',
      ''cloud.inference.deployments.delete'']"

definition domain_toolset_containers :: "string list" where
  "domain_toolset_containers =
     [''cloud.registries.create'',
      ''cloud.registries.list'',
      ''cloud.registries.get'',
      ''cloud.registries.update'',
      ''cloud.registries.delete'']"

definition get_toolset_definitions :: "(string \<times> string list) list" where
  \<comment> \<open>GcoreDomainHandler.get_toolset_definitions\<close>
  "get_toolset_definitions =
     [(''instances'', domain_toolset_instances),
      (''baremetal'', domain_toolset_baremetal),
      (''gpu'', domain_toolset_gpu),
      (''networking'', domain_toolset_networking),
      (''security'', domain_toolset_security),
      (''storage'', domain_toolset_storage),
      (''management'', domain_toolset_management),
      (''ai'', domain_toolset_ai),
      (''containers'', domain_toolset_containers)]"

text \<open>The entries of the local dictionary \<^verbatim>\<open>additional_toolsets\<close> of \<^verbatim>\<open>get_raw_toolsets\<close>.\<close>

definition additional_toolset_baremetal :: "string list" where
  "additional_toolset_baremetal =
     [''cloud.baremetal.images.list'',
      ''cloud.baremetal.flavors.list'',
      ''cloud.baremetal.flavors.list_suitable'',
      ''cloud.baremetal.servers.create'',
      ''cloud.baremetal.servers.list'',
      ''cloud.baremetal.servers.rebuild'']"

definition additional_toolset_gpu_baremetal :: "string list" where
  "additional_toolset_gpu_baremetal =
     [''cloud.gpu_baremetal_clusters.create'',
      ''cloud.gpu_baremetal_clusters.get'',
      ''cloud.gpu_baremetal_clusters.delete'',
      ''cloud.gpu_baremetal_clusters.list'',
      ''cloud.gpu_baremetal_clusters.rebuild'',
      ''cloud.gpu_baremetal_clusters.resize'',
      ''cloud.gpu_baremetal_clusters.powercycle_all_servers'',
      ''cloud.gpu_baremetal_clusters.reboot_all_servers'',
      ''cloud.gpu_baremetal_clusters.interfaces.list'',
      ''cloud.gpu_baremetal_clusters.servers.delete'',
      ''cloud.gpu_baremetal_clusters.servers.attach_interface'',
      ''cloud.gpu_baremetal_clusters.servers.detach_interface'',
      ''cloud.gpu_baremetal_clusters.servers.get_console'',
      ''cloud.gpu_baremetal_clusters.servers.powercycle'',
      ''cloud.gpu_baremetal_clusters.servers.reboot'',
      ''cloud.gpu_baremetal_clusters.flavors.list'',
      ''cloud.gpu_baremetal_clusters.images.upload'',
      ''cloud.gpu_baremetal_clusters.images.list'',
      ''cloud.gpu_baremetal_clusters.images.get'',
      ''cloud.gpu_baremetal_clusters.images.delete'']"

definition additional_toolset_ai_ml :: "string list" where
  "additional_toolset_ai_ml =
     [''cloud.inference.get_capacity_by_region'',
      ''cloud.inference.flavors.list'',
      ''cloud.inference.flavors.get'',
      ''cloud.inference.models.list'',
      ''cloud.inference.models.get'',
      ''cloud.inference.deployments.create'',
      ''cloud.inference.deployments.list'',
      ''cloud.inference.deployments.get'',
      ''cloud.inference.deployments.update'',
      ''cloud.inference.deployments.delete'',
      ''cloud.inference.deployments.get_api_key'',
      ''cloud.inference.deployments.start'',
      ''cloud.inference.deployments.stop'',
      ''cloud.inference.deployments.logs.list'',
      ''cloud.inference.registry_credentials.create'',
      ''cloud.inference.registry_credentials.list'',
      ''cloud.inference.registry_credentials.get'',
      ''cloud.inference.registry_credentials.replace'',
      ''cloud.inference.registry_credentials.delete'',
      ''cloud.inference.secrets.create'',
      ''cloud.inference.secrets.list'',
      ''cloud.inference.secrets.get'',
      ''cloud.inference.secrets.replace'',
      ''cloud.inference.secrets.delete'']"

definition additional_toolset_cleanup :: "string list" where
  "additional_toolset_cleanup =
     [''cloud.secrets.delete'',
      ''cloud.ssh_keys.delete'',
      ''cloud.load_balancers.delete'',
      ''cloud.load_balancers.l7policies.delete'',
      ''cloud.load_balancers.listeners.delete'',
      ''cloud.load_balancers.pools.delete'',
      ''cloud.reserved_fixed_ips.delete'',
      ''cloud.networks.delete'',
      ''cloud.networks.subnets.delete'',
      ''cloud.networks.routers.delete'',
      ''cloud.volumes.delete'',
      ''cloud.floating_ips.delete'',
      ''cloud.security_groups.delete'',
      ''cloud.inference.deployments.delete'',
      ''cloud.placement_groups.delete'',
      ''cloud.registries.delete'',
      ''cloud.file_shares.delete'',
      ''cloud.gpu_baremetal_clusters.delete'',
      ''cloud.gpu_baremetal_clusters.servers.delete'',
      ''cloud.gpu_baremetal_clusters.images.delete'',
      ''cloud.instances.delete'',
      ''cloud.instances.images.delete'']"

definition additional_toolset_list :: "string list" where
  "additional_toolset_list =
     [''cloud.instances.list'',
      ''cloud.instances.flavors.list'',
      ''cloud.instances.images.list'',
      ''cloud.baremetal.images.list'',
      ''cloud.baremetal.flavors.list'',
      ''cloud.baremetal.servers.list'',
      ''cloud.gpu_baremetal_clusters.list'',
      ''cloud.gpu_baremetal_clusters.flavors.list'',
      ''cloud.gpu_baremetal_clusters.images.list'',
      ''cloud.networks.list'',
      ''cloud.networks.subnets.list'',
      ''cloud.networks.routers.list'']"

definition additional_toolsets :: "(string \<times> string list) list" where
  \<comment> \<open>the local table of get_raw_toolsets\<close>
  "additional_toolsets =
     [(''baremetal'', additional_toolset_baremetal),
      (''gpu_baremetal'', additional_toolset_gpu_baremetal),
      (''ai_ml'', additional_toolset_ai_ml),
      (''cleanup'', additional_toolset_cleanup),
      (''list'', additional_toolset_list)]"

section \<open>config/settings.py: the name shortener\<close>

definition MAX_TOOL_NAME_LEN :: int where
  "MAX_TOOL_NAME_LEN = 60"

definition get_shortening_rules :: "(string \<times> string) list" where
  "get_shortening_rules =
     dict_update (dict_update (dict_update [] get_resource_shortening_rules)
                    get_method_shortening_rules) additional_rules"

definition short_name_untruncated :: "string \<Rightarrow> string" where
  \<comment> \<open>the local \<^verbatim>\<open>short_name_untruncated\<close> of \<^verbatim>\<open>generate_short_tool_name\<close>\<close>
  "short_name_untruncated original_dot_name =
     (let shortening_rules = get_shortening_rules;
          parts = split_on (CHR ''.'') original_dot_name;
          shortened_parts = map (\<lambda>part. dict_get shortening_rules part part) parts
      in join ''.'' shortened_parts)"

definition generate_short_tool_name_max :: "string \<Rightarrow> int \<Rightarrow> string" where
  \<comment> \<open>\<^verbatim>\<open>generate_short_tool_name(original_dot_name, max_len)\<close>\<close>
  "generate_short_tool_name_max original_dot_name max_len =
     (let s = short_name_untruncated original_dot_name
      in if int (length s) \<le> max_len then s else py_slice_to s max_len)"

definition generate_short_tool_name :: "string \<Rightarrow> string" where
  \<comment> \<open>the call with the default \<^verbatim>\<open>max_len = MAX_TOOL_NAME_LEN\<close>\<close>
  "generate_short_tool_name original_dot_name =
     generate_short_tool_name_max original_dot_name MAX_TOOL_NAME_LEN"

subsection \<open>Wildcard patterns\<close>

text \<open>
  \<^verbatim>\<open>re.escape\<close> puts a backslash before each character of its fixed table of special
  characters and leaves every other character as it is.
\<close>

definition re_special_chars :: "char list" where
  "re_special_chars =
     ''()[]{}?*+-|^$'' @ [CHR 0x5C] @ ''.&~# '' @
     [CHR 0x09, CHR 0x0A, CHR 0x0D, CHR 0x0B, CHR 0x0C]"

fun re_escape :: "string \<Rightarrow> string" where
  "re_escape [] = []"
| "re_escape (c # cs) =
     (if c \<in> set re_special_chars then CHR 0x5C # c # re_escape cs else c # re_escape cs)"

fun replace_escaped_star :: "string \<Rightarrow> string" where
  \<comment> \<open>\<^verbatim>\<open>s.replace(r"\*", r".*")\<close>: leftmost occurrences first, without overlap\<close>
  "replace_escaped_star (a # b # cs) =
     (if a = CHR 0x5C \<and> b = CHR ''*'' then CHR ''.'' # CHR ''*'' # replace_escaped_star cs
      else a # replace_escaped_star (b # cs))"
| "replace_escaped_star cs = cs"

definition convert_pattern_to_regex :: "string \<Rightarrow> string" where
  "convert_pattern_to_regex pattern =
     ''^'' @ replace_escaped_star (re_escape pattern) @ ''$''"

text \<open>
  The regular expressions that reach \<^verbatim>\<open>re.match\<close> are built from three kinds of items:
  an escaped character, a plain character, and the wildcard \<^verbatim>\<open>.*\<close>.  They are read into
  a list of items; every other regular expression is outside the model (\<open>None\<close>).
\<close>

datatype re_item = Lit char | AnyStar

fun re_parse :: "string \<Rightarrow> re_item list option" where
  "re_parse [] = Some []"
| "re_parse (a # cs) =
     (if a = CHR 0x5C then
        (case cs of [] \<Rightarrow> None
         | b # ds \<Rightarrow> (if b \<in> set re_special_chars
                      then map_option (\<lambda>r. Lit b # r) (re_parse ds) else None))
      else if a = CHR ''.'' then
        (case cs of [] \<Rightarrow> None
         | b # ds \<Rightarrow> (if b = CHR ''*''
                      then map_option (\<lambda>r. AnyStar # r) (re_parse ds) else None))
      else if a \<in> set re_special_chars then None
      else map_option (\<lambda>r. Lit a # r) (re_parse cs))"

fun re_items_match :: "re_item list \<Rightarrow> string \<Rightarrow> bool" where
  \<comment> \<open>\<^verbatim>\<open>re.match\<close>: the items match some prefix of the string; \<^verbatim>\<open>.\<close> is any character
      but a newline\<close>
  "re_items_match [] s = True"
| "re_items_match (Lit c # r) [] = False"
| "re_items_match (Lit c # r) (x # xs) = (x = c \<and> re_items_match r xs)"
| "re_items_match (AnyStar # r) [] = re_items_match r []"
| "re_items_match (AnyStar # r) (x # xs) =
     (re_items_match r (x # xs) \<or> (x \<noteq> CHR 0x0A \<and> re_items_match (AnyStar # r) xs))"

definition re_match :: "string \<Rightarrow> string \<Rightarrow> bool" where
  \<comment> \<open>truth value of \<^verbatim>\<open>re.match(regex, s)\<close>\<close>
  "re_match regex s = (case re_parse regex of Some r \<Rightarrow> re_items_match r s | None \<Rightarrow> False)"

definition pattern_matches :: "string \<Rightarrow> string \<Rightarrow> bool" where
  \<comment> \<open>the test of the inner loop of \<^verbatim>\<open>get_allowed_tools_list\<close>\<close>
  "pattern_matches pattern tool_name =
     (pattern = tool_name \<or>
      (CHR ''*'' \<in> set pattern \<and>
       re_match (replace_escaped_star (re_escape pattern)) tool_name))"

definition pattern_matched_names :: "string list \<Rightarrow> string list \<Rightarrow> string list" where
  \<comment> \<open>the double loop: a name is appended once, at its first matching pattern\<close>
  "pattern_matched_names pattern_filters all_available_tools =
     filter (\<lambda>tool_name. list_ex (\<lambda>pattern. pattern_matches pattern tool_name) pattern_filters)
       all_available_tools"

subsection \<open>Parsing the configuration\<close>

definition py_isspace :: "char \<Rightarrow> bool" where
  \<comment> \<open>the characters \<^verbatim>\<open>str.strip()\<close> removes, among the code points below 256\<close>
  "py_isspace c =
     (c \<in> set [CHR 0x09, CHR 0x0A, CHR 0x0B, CHR 0x0C, CHR 0x0D, CHR 0x1C, CHR 0x1D,
               CHR 0x1E, CHR 0x1F, CHR 0x20, CHR 0x85, CHR 0xA0])"

definition strip :: "string \<Rightarrow> string" where
  "strip s = rev (dropWhile py_isspace (rev (dropWhile py_isspace s)))"

section \<open>config/toolsets.py: toolsets and tool selection\<close>

definition get_raw_toolsets :: "(string \<times> string list) list" where
  \<comment> \<open>\<^verbatim>\<open>result = base_toolsets.copy(); result.update(additional_toolsets)\<close>\<close>
  "get_raw_toolsets = dict_update get_toolset_definitions additional_toolsets"

definition generate_toolsets :: "(string \<times> string list) list" where
  \<comment> \<open>\<^verbatim>\<open>_generate_toolsets\<close>\<close>
  "generate_toolsets =
     foldl (\<lambda>shortened_toolsets (toolset_key, tool_list).
              dict_set shortened_toolsets toolset_key (map generate_short_tool_name tool_list))
       [] get_raw_toolsets"

definition TOOLSETS :: "(string \<times> string list) list" where
  "TOOLSETS = generate_toolsets"

definition DEFAULT_TOOLSETS :: "string list" where
  "DEFAULT_TOOLSETS = [''management'', ''instances'']"

definition parse_unified_tool_config :: "string \<Rightarrow> string list \<times> string list" where
  \<comment> \<open>in config/settings.py; each entry goes to exactly one of the two lists\<close>
  "parse_unified_tool_config config_str =
     (let entries = filter (\<lambda>entry. entry \<noteq> [])
                      (map strip (split_on (CHR '','') config_str))
      in partition (\<lambda>entry. entry \<in> fst ` set TOOLSETS) entries)"

definition get_unified_tool_config :: "string option \<Rightarrow> string list \<times> string list" where
  \<comment> \<open>the argument is \<^verbatim>\<open>os.getenv(UNIFIED_TOOLS_ENV_VAR)\<close>: \<open>None\<close> when the variable is
      unset; an empty value is falsy\<close>
  "get_unified_tool_config unified_config =
     (case unified_config of
        None \<Rightarrow> ([], [])
      | Some config_str \<Rightarrow>
          if config_str = [] then ([], []) else parse_unified_tool_config config_str)"

definition get_active_toolset_names :: "string option \<Rightarrow> string list" where
  "get_active_toolset_names env =
     (let toolset_names = fst (get_unified_tool_config env)
      in if toolset_names \<noteq> [] \<or> env \<noteq> None then toolset_names else DEFAULT_TOOLSETS)"

definition toolset_tools_of :: "string list \<Rightarrow> string list" where
  \<comment> \<open>the first loop of \<^verbatim>\<open>get_allowed_tools_list\<close> and the removal of duplicates after it;
      an unknown toolset name is logged and skipped\<close>
  "toolset_tools_of toolset_names =
     fromkeys (concat (map (\<lambda>toolset_name.
        case map_of TOOLSETS toolset_name of Some tools \<Rightarrow> tools | None \<Rightarrow> []) toolset_names))"

definition get_allowed_tools_list :: "string option \<Rightarrow> string list option \<Rightarrow> string list" where
  \<comment> \<open>first argument: the value of the environment variable; second argument:
      \<^verbatim>\<open>all_available_tools\<close>, \<open>None\<close> by default\<close>
  "get_allowed_tools_list env all_available_tools =
     (let (configured_names, pattern_filters) = get_unified_tool_config env;
          toolset_names =
            (if configured_names = [] \<and> pattern_filters = [] \<and> env = None
             then DEFAULT_TOOLSETS else configured_names);
          toolset_tools = toolset_tools_of toolset_names;
          pattern_matched_tools =
            (case all_available_tools of
               None \<Rightarrow> []
             | Some available \<Rightarrow>
                 if pattern_filters \<noteq> [] \<and> available \<noteq> []
                 then map generate_short_tool_name
                        (pattern_matched_names pattern_filters available)
                 else [])
      in fromkeys (toolset_tools @ pattern_matched_tools))"


text \<open>The value that the selection takes when nothing is configured, written out.\<close>

definition default_tools :: "string list" where
  \<comment> \<open>the shortened names of the toolsets \<^verbatim>\<open>management\<close> and \<^verbatim>\<open>instances\<close>, in this order\<close>
  "default_tools =
     [''cloud.projs.new'',
      ''cloud.projs.ls'',
      ''cloud.projs.get'',
      ''cloud.projs.upd'',
      ''cloud.projs.del'',
      ''cloud.rgns.ls'',
      ''cloud.rgns.get'',
      ''cloud.placegrps.new'',
      ''cloud.placegrps.ls'',
      ''cloud.placegrps.get'',
      ''cloud.placegrps.upd'',
      ''cloud.placegrps.del'',
      ''cloud.tsks.ls'',
      ''cloud.tsks.get'',
      ''cloud.tsks.ack_all'',
      ''cloud.tsks.ack_one'',
      ''cloud.qotas.ls'',
      ''cloud.qotas.get'',
      ''cloud.insts.new'',
      ''cloud.insts.ls'',
      ''cloud.insts.get'',
      ''cloud.insts.upd'',
      ''cloud.insts.del'',
      ''cloud.insts.assign_secgrp'',
      ''cloud.insts.unassign_secgrp'',
      ''cloud.insts.resz'',
      ''cloud.insts.get_con'',
      ''cloud.insts.add_placegrp'',
      ''cloud.insts.rm_placegrp'',
      ''cloud.insts.dis_portsec'',
      ''cloud.insts.en_portsec'',
      ''cloud.insts.act'',
      ''cloud.insts.flavs.ls'',
      ''cloud.insts.flavs.ls_suit'',
      ''cloud.insts.flavs.ls_resz'',
      ''cloud.insts.ifaces.ls'',
      ''cloud.insts.ifaces.att'',
      ''cloud.insts.ifaces.det'',
      ''cloud.insts.imgs.new_vol'',
      ''cloud.insts.imgs.ls'',
      ''cloud.insts.imgs.get'',
      ''cloud.insts.imgs.upd'',
      ''cloud.insts.imgs.del'',
      ''cloud.insts.imgs.upl'',
      ''cloud.insts.metr.ls'']"


text \<open>
  The reading of the pattern rule in the specification: a pattern matches a name when the
  two are equal, or when the pattern has a \<^verbatim>\<open>*\<close> and matches the whole name, each
  \<^verbatim>\<open>*\<close> standing for any run of characters.
\<close>

fun glob_full_match :: "string \<Rightarrow> string \<Rightarrow> bool" where
  "glob_full_match [] s = (s = [])"
| "glob_full_match (p # ps) [] = (p = CHR ''*'' \<and> glob_full_match ps [])"
| "glob_full_match (p # ps) (x # xs) =
     (if p = CHR ''*'' then glob_full_match ps (x # xs) \<or> glob_full_match (p # ps) xs
      else p = x \<and> glob_full_match ps xs)"

definition spec_pattern_matches :: "string \<Rightarrow> string \<Rightarrow> bool" where
  "spec_pattern_matches pattern name =
     (pattern = name \<or> (CHR ''*'' \<in> set pattern \<and> glob_full_match pattern name))"

text \<open>The item that one character of a wildcard pattern stands for.\<close>

definition pattern_item :: "char \<Rightarrow> re_item" where
  "pattern_item c = (if c = CHR ''*'' then AnyStar else Lit c)"

section \<open>core/inspection.py: method discovery\<close>

text \<open>
  The client object graph is seen through \<^verbatim>\<open>inspect\<close> only.  An object is given by the name
  of the module of its class (\<open>None\<close> when \<^verbatim>\<open>inspect.getmodule\<close> finds none), the lower-cased
  name of its class, its bound methods and its other members, both in the order of
  \<^verbatim>\<open>inspect.getmembers\<close>.  For a method the model records what the three calls
  \<^verbatim>\<open>inspect.signature\<close>, \<^verbatim>\<open>inspect.getdoc\<close> and \<^verbatim>\<open>get_type_hints\<close> lead to: the record that
  is stored, a \<^verbatim>\<open>ValueError\<close> or \<^verbatim>\<open>TypeError\<close> (caught, the method is skipped), or any other
  exception (not caught by the handler around them).  Objects are finite trees.
\<close>

datatype 'm inspect_outcome = Inspected 'm | InspectFailed | InspectRaised

datatype 'm pyobj =
  PyObj (class_module: "string option") (class_name_lower: string)
        (bound_methods: "(string \<times> 'm inspect_outcome) list")
        (members: "(string \<times> 'm pyobj) list")

type_synonym 'm resource_methods_dict = "(string \<times> (string \<times> 'm) list) list"

definition startswith :: "string \<Rightarrow> string \<Rightarrow> bool" where
  "startswith s pre = (take (length pre) s = pre)"

definition skip_names :: "string list" where
  "skip_names =
     [''_client'', ''_version'', ''_qs'', ''_session'', ''_options'', ''_params'',
      ''_response_timeout'', ''api_key'', ''project_id'', ''region_id'',
      ''with_raw_response'', ''with_streaming_response'', ''copy'', ''model_copy'']"

definition skip_top_level :: "string list" where
  "skip_top_level =
     [''api_key'', ''project_id'', ''region_id'', ''with_raw_response'',
      ''with_streaming_response'', ''copy'', ''model_copy'', ''from_env'']"

definition in_base_module :: "string option \<Rightarrow> string \<Rightarrow> bool" where
  \<comment> \<open>\<^verbatim>\<open>module and module.__name__.startswith(base_module_name)\<close>\<close>
  "in_base_module m base = (case m of None \<Rightarrow> False | Some name \<Rightarrow> startswith name base)"

fun inspect_methods ::
  "string list \<Rightarrow> (string \<times> 'm inspect_outcome) list \<Rightarrow> (string \<times> 'm) list
   \<Rightarrow> bool \<times> (string \<times> 'm) list" where
  \<comment> \<open>the loop over the methods of one object, writing into \<^verbatim>\<open>resource_entry\<close>; the flag
      tells that an exception left the loop\<close>
  "inspect_methods skip [] resource_entry = (False, resource_entry)"
| "inspect_methods skip ((method_name, outcome) # rest) resource_entry =
     (if startswith method_name ''_'' \<or> method_name \<in> set skip
      then inspect_methods skip rest resource_entry
      else (case outcome of
              Inspected info \<Rightarrow> inspect_methods skip rest (dict_set resource_entry method_name info)
            | InspectFailed \<Rightarrow> inspect_methods skip rest resource_entry
            | InspectRaised \<Rightarrow> (True, resource_entry)))"

text \<open>
  \<^verbatim>\<open>_inspect_recursive\<close> updates \<^verbatim>\<open>methods_dict\<close> in place.  When the path already is a key,
  \<^verbatim>\<open>resource_entry\<close> is the stored dictionary itself and every write shows in
  \<^verbatim>\<open>methods_dict\<close> at once; otherwise it is a new dictionary that is stored after the loop
  if it is not empty.  An exception raised below a member is swallowed by the handler
  around the recursive call, and what was written before it stays.
\<close>

definition inspect_own_methods ::
  "(string \<times> 'm inspect_outcome) list \<Rightarrow> string \<Rightarrow> 'm resource_methods_dict
   \<Rightarrow> bool \<times> 'm resource_methods_dict" where
  \<comment> \<open>the first half of \<^verbatim>\<open>_inspect_recursive\<close>: the loop over the methods and the
      conditional store of \<^verbatim>\<open>resource_entry\<close>\<close>
  "inspect_own_methods meths current_path methods_dict =
     (let existing = map_of methods_dict current_path;
          (raised, resource_entry) =
             inspect_methods skip_names meths (case existing of Some e \<Rightarrow> e | None \<Rightarrow> [])
      in (raised,
          if existing \<noteq> None \<or> (\<not> raised \<and> resource_entry \<noteq> [])
          then dict_set methods_dict current_path resource_entry else methods_dict))"

definition current_path_of :: "string \<Rightarrow> string list \<Rightarrow> string" where
  \<comment> \<open>the joined path, or the lower-cased class name for an empty list of parts\<close>
  "current_path_of cls current_path_parts =
     (if current_path_parts = [] then cls else join ''.'' current_path_parts)"

fun inspect_recursive ::
  "'m pyobj \<Rightarrow> string list \<Rightarrow> 'm resource_methods_dict \<Rightarrow> string
   \<Rightarrow> bool \<times> 'm resource_methods_dict"
and inspect_members ::
  "(string \<times> 'm pyobj) list \<Rightarrow> string list \<Rightarrow> 'm resource_methods_dict \<Rightarrow> string
   \<Rightarrow> 'm resource_methods_dict" where
  "inspect_recursive (PyObj modname cls meths attrs) current_path_parts methods_dict base =
     (case inspect_own_methods meths (current_path_of cls current_path_parts) methods_dict of
        (raised, methods_dict') \<Rightarrow>
          if raised then (True, methods_dict')
          else (False, inspect_members attrs current_path_parts methods_dict' base))"
| "inspect_members [] current_path_parts methods_dict base = methods_dict"
| "inspect_members ((attr_name, attr_value) # rest) current_path_parts methods_dict base =
     (if startswith attr_name ''_'' \<or> attr_name \<in> set skip_names
      then inspect_members rest current_path_parts methods_dict base
      else if in_base_module (class_module attr_value) base
      then inspect_members rest current_path_parts
             (snd (inspect_recursive attr_value (current_path_parts @ [attr_name])
                     methods_dict base)) base
      else inspect_members rest current_path_parts methods_dict base)"

fun inspect_service_members ::
  "(string \<times> 'm pyobj) list \<Rightarrow> string \<Rightarrow> 'm resource_methods_dict \<Rightarrow> string
   \<Rightarrow> bool \<times> 'm resource_methods_dict" where
  \<comment> \<open>the first inner loop of \<^verbatim>\<open>inspect_sdk_methods\<close>; here no handler surrounds the
      recursive call\<close>
  "inspect_service_members [] service_name inspected_methods base = (False, inspected_methods)"
| "inspect_service_members ((attr_name, attr_value) # rest) service_name inspected_methods base =
     (if startswith attr_name ''_''
      then inspect_service_members rest service_name inspected_methods base
      else if in_base_module (class_module attr_value) base
      then (case inspect_recursive attr_value [service_name, attr_name] inspected_methods base of
              (True, d) \<Rightarrow> (True, d)
            | (False, d) \<Rightarrow> inspect_service_members rest service_name d base)
      else inspect_service_members rest service_name inspected_methods base)"

fun inspect_service_methods ::
  "(string \<times> 'm inspect_outcome) list \<Rightarrow> string \<Rightarrow> 'm resource_methods_dict
   \<Rightarrow> bool \<times> 'm resource_methods_dict" where
  \<comment> \<open>the second inner loop: methods bound on the service object itself\<close>
  "inspect_service_methods [] resource_path inspected_methods = (False, inspected_methods)"
| "inspect_service_methods ((method_name, outcome) # rest) resource_path inspected_methods =
     (if startswith method_name ''_''
      then inspect_service_methods rest resource_path inspected_methods
      else
        (let d = (if resource_path \<notin> fst ` set inspected_methods
                  then dict_set inspected_methods resource_path [] else inspected_methods)
         in case outcome of
              Inspected info \<Rightarrow>
                inspect_service_methods rest resource_path
                  (dict_set d resource_path (dict_set (dict_get d resource_path []) method_name info))
            | InspectFailed \<Rightarrow> inspect_service_methods rest resource_path d
            | InspectRaised \<Rightarrow> (True, d)))"

fun inspect_services ::
  "(string \<times> 'm pyobj) list \<Rightarrow> 'm resource_methods_dict \<Rightarrow> string
   \<Rightarrow> bool \<times> 'm resource_methods_dict" where
  \<comment> \<open>the loop over \<^verbatim>\<open>inspect.getmembers(client)\<close>\<close>
  "inspect_services [] inspected_methods base = (False, inspected_methods)"
| "inspect_services ((service_name, service_obj) # rest) inspected_methods base =
     (if startswith service_name ''_'' \<or> service_name \<in> set skip_top_level
      then inspect_services rest inspected_methods base
      else if \<not> in_base_module (class_module service_obj) base
      then inspect_services rest inspected_methods base
      else (case inspect_service_members (members service_obj) service_name
                   inspected_methods base of
              (True, d) \<Rightarrow> (True, d)
            | (False, d) \<Rightarrow>
                (case inspect_service_methods (bound_methods service_obj) service_name d of
                   (True, d') \<Rightarrow> (True, d')
                 | (False, d') \<Rightarrow> inspect_services rest d' base)))"

definition base_module_name :: "'m pyobj \<Rightarrow> string" where
  \<comment> \<open>\<^verbatim>\<open>client_module.__name__.split('.')[0] if client_module else "gcore"\<close>\<close>
  "base_module_name client =
     (case class_module client of
        None \<Rightarrow> ''gcore''
      | Some name \<Rightarrow> (case split_on (CHR ''.'') name of [] \<Rightarrow> [] | first # _ \<Rightarrow> first))"

definition walk_sdk :: "'m pyobj \<Rightarrow> 'm resource_methods_dict option" where
  \<comment> \<open>the body of \<^verbatim>\<open>inspect_sdk_methods\<close> after the cache test: the dictionary it builds,
      or \<open>None\<close> when an exception leaves it\<close>
  "walk_sdk client =
     (case inspect_services (members client) [] (base_module_name client) of
        (True, _) \<Rightarrow> None
      | (False, inspected_methods) \<Rightarrow> Some inspected_methods)"

text \<open>
  The module variable \<^verbatim>\<open>_resource_methods_cache\<close> holds \<^verbatim>\<open>None\<close> or a reference to a
  dictionary.  References are addresses into a store of dictionaries; a new dictionary takes
  the next unused address.
\<close>

record 'm inspection_state =
  store :: "nat \<Rightarrow> 'm resource_methods_dict option"
  next_address :: nat
  resource_methods_cache :: "nat option"

definition inspect_sdk_methods ::
  "'m pyobj \<Rightarrow> 'm inspection_state \<Rightarrow> nat option \<times> 'm inspection_state" where
  \<comment> \<open>the result is the reference that is returned, \<open>None\<close> when the call raises\<close>
  "inspect_sdk_methods client s =
     (case resource_methods_cache s of
        Some ref \<Rightarrow> (Some ref, s)
      | None \<Rightarrow>
          (let ref = next_address s;
               s' = s\<lparr>next_address := Suc ref\<rparr>
           in case walk_sdk client of
                None \<Rightarrow> (None, s')
              | Some inspected_methods \<Rightarrow>
                  (Some ref, s'\<lparr>store := (store s')(ref \<mapsto> inspected_methods),
                                resource_methods_cache := Some ref\<rparr>)))"

definition clear_inspection_cache :: "'m inspection_state \<Rightarrow> 'm inspection_state" where
  "clear_inspection_cache s = s\<lparr>resource_methods_cache := None\<rparr>"

definition get_all_resources ::
  "'m pyobj \<Rightarrow> 'm inspection_state \<Rightarrow> string list option \<times> 'm inspection_state" where
  "get_all_resources client s =
     (case inspect_sdk_methods client s of
        (None, s') \<Rightarrow> (None, s')
      | (Some ref, s') \<Rightarrow> (map_option (map fst) (store s' ref), s'))"

definition iter_sdk_methods ::
  "'m pyobj \<Rightarrow> 'm inspection_state \<Rightarrow> (string \<times> 'm) list option \<times> 'm inspection_state" where
  \<comment> \<open>the pairs the generator yields, in order; every stored record holds a callable\<close>
  "iter_sdk_methods client s =
     (case inspect_sdk_methods client s of
        (None, s') \<Rightarrow> (None, s')
      | (Some ref, s') \<Rightarrow>
          (map_option (\<lambda>d. concat (map (\<lambda>(resource_path, methods).
                map (\<lambda>(method_name, method_info).
                       (resource_path @ ''.'' @ method_name, method_info)) methods) d))
             (store s' ref), s'))"

definition no_empty_entry :: "'m resource_methods_dict \<Rightarrow> bool" where
  \<comment> \<open>the invariant of the catalog: no key is mapped to an empty dictionary of methods\<close>
  "no_empty_entry d = list_all (\<lambda>entry. snd entry \<noteq> []) d"

text \<open>
  Two small clients: a service \<^verbatim>\<open>dns\<close> whose only method \<^verbatim>\<open>list_zones\<close> cannot be inspected,
  and a service \<^verbatim>\<open>cloud\<close> with a resource \<^verbatim>\<open>instances\<close> that has a method \<^verbatim>\<open>create\<close>.
\<close>

definition failing_service_client :: "string pyobj" where
  "failing_service_client =
     PyObj (Some ''gcore'') ''gcore'' []
       [(''dns'', PyObj (Some ''gcore.resources.dns'') ''dnsresource''
                    [(''list_zones'', InspectFailed)] [])]"

definition small_client :: "string pyobj" where
  "small_client =
     PyObj (Some ''gcore'') ''gcore'' []
       [(''cloud'', PyObj (Some ''gcore.resources.cloud'') ''cloudresource'' []
           [(''instances'', PyObj (Some ''gcore.resources.cloud.instances'') ''instancesresource''
                [(''create'', Inspected ''create instance'')] [])])]"

definition initial_state :: "string inspection_state" where
  "initial_state = \<lparr>store = (\<lambda>_. None), next_address = 0, resource_methods_cache = None\<rparr>"

section \<open>JSON values and the domain handler\<close>

text \<open>
  A \<^verbatim>\<open>Literal\<close> argument keeps the kind that the \<^verbatim>\<open>isinstance\<close> tests of the translator
  look at; a float is carried by its text only.  Schema fragments are dictionaries of JSON
  values, with the literal values of an \<^verbatim>\<open>enum\<close> kept as they are.
\<close>

datatype literal = LitBool bool | LitInt int | LitFloat string | LitStr string | LitOther string

datatype json =
    JNull | JBool bool | JInt int | JStr string | JLit literal
  | JList "json list" | JObj "(string \<times> json) list"

type_synonym schema = "(string \<times> json) list"

text \<open>
  The exceptions that leave the functions modelled below without being caught there; an
  exception of another class is given by the name of its class.
\<close>

datatype py_exception = NameError | RecursionError | ValueError | OtherException string

definition GCORE_SPECIAL_PARAMETERS :: "string list" where
  \<comment> \<open>the members of the set, in the order of the source\<close>
  "GCORE_SPECIAL_PARAMETERS =
     [''volumes'',
      ''interfaces'',
      ''security_groups'',
      ''flavors'',
      ''networks'',
      ''instances'',
      ''projects'',
      ''regions'']"

definition parameter_descriptions :: "(string \<times> string) list" where
  \<comment> \<open>the local table \<^verbatim>\<open>descriptions\<close> of \<^verbatim>\<open>get_parameter_description\<close>\<close>
  \<open>parameter_descriptions =
     [(''volumes'',
       ''List of volume configurations. Each item can define a volume from an image, sn'' @
       ''apshot, or refer to an existing volume. Example for a boot volume from image: '' @
       ''`[{"source": "image", "image_id": "...", "boot_index": 0, "size": 50}]`. Examp'' @
       ''le for an existing volume: `[{"id": "..."}]`.''),
      (''interfaces'',
       ''List of network interface configurations. Example: `[{"type": "external", "net'' @
       ''work_id": "..."}]`''),
      (''security_groups'',
       ''List of security group UUIDs. Example: `["<sg_uuid1>", "<sg_uuid2>"]`'')]\<close>

definition get_parameter_description :: "string \<Rightarrow> string \<Rightarrow> string" where
  "get_parameter_description param_name base_description =
     dict_get parameter_descriptions param_name base_description"

definition parameter_examples :: "(string \<times> json list) list" where
  \<comment> \<open>the local table \<^verbatim>\<open>examples\<close> of \<^verbatim>\<open>get_parameter_examples\<close>\<close>
  \<open>parameter_examples =
     [(''volumes'',
       [JList [JObj [(''source'', JStr ''image''),
                    (''image_id'', JStr ''<image_uuid>''),
                    (''boot_index'', JInt 0),
                    (''size'', JInt 50)]],
        JList [JObj [(''id'', JStr ''<existing_volume_uuid>'')]]]),
      (''interfaces'',
       [JList [JObj [(''type'', JStr ''external''),
                    (''network_id'', JStr ''<network_uuid>'')]],
        JList [JObj [(''type'', JStr ''internal''),
                    (''subnet_id'', JStr ''<subnet_uuid>''),
                    (''security_groups'', JList [JStr ''<sg_uuid>''])]]]),
      (''security_groups'',
       [JList [JStr ''<sg_uuid1>'', JStr ''<sg_uuid2>'']])]\<close>

definition get_parameter_examples :: "string \<Rightarrow> json list" where
  "get_parameter_examples param_name = dict_get parameter_examples param_name []"

definition get_union_type_description_enhancement :: "string \<Rightarrow> string \<Rightarrow> string" where
  \<open>get_union_type_description_enhancement param_name base_description =
     (if param_name = ''volumes''
      then base_description @
           ''. Example for a boot volume: `{"source": "image", "image_id": "...", "boot_ind'' @
           ''ex": 0, "size": 50}`''
      else base_description)\<close>


definition is_special_parameter :: "string \<Rightarrow> bool" where
  "is_special_parameter param_name = (param_name \<in> set GCORE_SPECIAL_PARAMETERS)"

section \<open>core/schema.py: from type annotations to schema fragments\<close>

text \<open>
  A type annotation is described by what \<^verbatim>\<open>get_origin\<close>, \<^verbatim>\<open>get_args\<close>, \<^verbatim>\<open>is_typeddict\<close>,
  \<^verbatim>\<open>inspect.isclass\<close> and \<^verbatim>\<open>inspect.getdoc\<close> report about it:
  \<^item> the classes \<^verbatim>\<open>int\<close>, \<^verbatim>\<open>float\<close>, \<^verbatim>\<open>bool\<close>, \<^verbatim>\<open>str\<close>; \<^verbatim>\<open>Any\<close>; the empty annotation;
    \<^verbatim>\<open>None\<close> or \<^verbatim>\<open>NoneType\<close>;
  \<^item> \<^verbatim>\<open>Required[...]\<close>, \<^verbatim>\<open>NotRequired[...]\<close>, \<^verbatim>\<open>Literal[...]\<close> and \<^verbatim>\<open>Union[...]\<close> with their
    arguments;
  \<^item> a \<^verbatim>\<open>TypedDict\<close> class with its name, its documentation (empty when there is none),
    \<^verbatim>\<open>__required_keys__\<close> when the class has the attribute, and \<^verbatim>\<open>__total__\<close>; its field
    hints are not part of the description, the translator asks \<^verbatim>\<open>get_type_hints\<close> for them
    when it reaches the class, and they may mention the class itself;
  \<^item> a generic alias whose origin is one of the sequence, set or iterable types, and one
    whose origin is \<^verbatim>\<open>dict\<close>, with their arguments;
  \<^item> a subclass of pydantic's \<^verbatim>\<open>BaseModel\<close> with its name, its documentation and the
    result of \<^verbatim>\<open>model_json_schema()\<close> (\<open>None\<close> when the call raises);
  \<^item> any other class, with a mark for the SDK's \<^verbatim>\<open>NotGiven\<close>, its name and its
    documentation; like the hints of a TypedDict, its \<^verbatim>\<open>__annotations__\<close> are read when the
    translator reaches the class, and they may mention the class itself;
  \<^item> anything else, given by its \<^verbatim>\<open>str()\<close>.
  The description of a fragment produced by pydantic is taken to be a string, as pydantic
  produces it.
\<close>

datatype pytype =
    TInt | TFloat | TBool | TStr | TAny | TEmpty | TNone
  | TRequired "pytype list"
  | TNotRequired "pytype list"
  | TLiteral "literal list"
  | TUnion "pytype list"
  | TTypedDict string string "string list option" bool
  | TContainer "pytype list"
  | TDict "pytype list"
  | TPydantic string "string option" "schema option"
  | TClass bool string "string option"
  | TOther string

text \<open>
  What Python itself reports for a value and is not fixed by the repository: the
  \<^verbatim>\<open>__name__\<close> of a typing construct (absent for some), \<^verbatim>\<open>str()\<close> of a type, \<^verbatim>\<open>repr()\<close> of a
  literal value, the outcome of \<^verbatim>\<open>get_type_hints(cls, include_extras=True)\<close> for the
  TypedDict class of a given name: the resolved hints in order, or the exception the call
  raises (a \<^verbatim>\<open>NameError\<close> for a forward reference that cannot be resolved); and the
  outcome of reading \<^verbatim>\<open>__annotations__\<close> of the class of a given name: the annotations in
  order, empty when the class has none, or the exception raised when they are evaluated
  on access.  Classes are told apart by their names.
\<close>

record reflection =
  alias_name :: "pytype \<Rightarrow> string option"
  str_of :: "pytype \<Rightarrow> string"
  repr_of :: "literal \<Rightarrow> string"
  get_type_hints :: "string \<Rightarrow> py_exception + (string \<times> pytype) list"
  class_annotations :: "string \<Rightarrow> py_exception + (string \<times> pytype) list"

definition getattr_name :: "reflection \<Rightarrow> pytype \<Rightarrow> string option" where
  \<comment> \<open>\<^verbatim>\<open>getattr(t, "__name__", ...)\<close>: a class always has a name\<close>
  "getattr_name R t =
     (case t of
        TInt \<Rightarrow> Some ''int'' | TFloat \<Rightarrow> Some ''float'' | TBool \<Rightarrow> Some ''bool''
      | TStr \<Rightarrow> Some ''str''
      | TTypedDict name _ _ _ \<Rightarrow> Some name
      | TPydantic name _ _ \<Rightarrow> Some name
      | TClass _ name _ \<Rightarrow> Some name
      | _ \<Rightarrow> alias_name R t)"

definition type_str :: "reflection \<Rightarrow> pytype \<Rightarrow> string" where
  "type_str R t = (case t of TOther s \<Rightarrow> s | _ \<Rightarrow> str_of R t)"

definition name_or_str :: "reflection \<Rightarrow> pytype \<Rightarrow> string" where
  \<comment> \<open>\<^verbatim>\<open>getattr(t, "__name__", str(t))\<close>\<close>
  "name_or_str R t = (case getattr_name R t of Some n \<Rightarrow> n | None \<Rightarrow> type_str R t)"

subsection \<open>String operations\<close>

definition endswith :: "string \<Rightarrow> string \<Rightarrow> bool" where
  "endswith s suf = (length suf \<le> length s \<and> drop (length s - length suf) s = suf)"

fun contains :: "string \<Rightarrow> string \<Rightarrow> bool" where
  \<comment> \<open>\<^verbatim>\<open>sub in s\<close>\<close>
  "contains [] sub = (sub = [])"
| "contains (c # cs) sub = (startswith (c # cs) sub \<or> contains cs sub)"

fun before_blank_line :: "string \<Rightarrow> string" where
  \<comment> \<open>\<^verbatim>\<open>s.split("\n\n")[0]\<close>\<close>
  "before_blank_line (a # b # cs) =
     (if a = CHR 0x0A \<and> b = CHR 0x0A then [] else a # before_blank_line (b # cs))"
| "before_blank_line cs = cs"

definition after_first_colon :: "string \<Rightarrow> string" where
  \<comment> \<open>\<^verbatim>\<open>s.split(":", 1)[1]\<close> for a string that has a colon\<close>
  "after_first_colon s = drop 1 (dropWhile (\<lambda>c. c \<noteq> CHR '':'') s)"

definition first_paragraph :: "string \<Rightarrow> string" where
  \<comment> \<open>\<^verbatim>\<open>doc.split("\n\n")[0].strip()\<close>\<close>
  "first_paragraph doc = strip (before_blank_line doc)"

subsection \<open>Dictionary access on fragments\<close>

definition has_key :: "('k \<times> 'v) list \<Rightarrow> 'k \<Rightarrow> bool" where
  \<comment> \<open>\<^verbatim>\<open>k in d\<close>\<close>
  "has_key d k = (k \<in> fst ` set d)"

definition description_text :: "schema \<Rightarrow> string" where
  \<comment> \<open>the string stored under \<^verbatim>\<open>description\<close>\<close>
  "description_text d = (case map_of d ''description'' of Some (JStr s) \<Rightarrow> s | _ \<Rightarrow> [])"

definition null_schema :: schema where
  "null_schema = [(''type'', JStr ''null'')]"

definition any_schema :: schema where
  "any_schema =
     [(''type'', JStr ''object''),
      (''description'',
       JStr ''Any type, can be a flexible JSON object or an appropriate primitive.'')]"

definition empty_required_schema :: schema where
  "empty_required_schema =
     [(''type'', JStr ''object''),
      (''description'', JStr ''Any type (from empty Required/NotRequired)'')]"

subsection \<open>The branches of the translator\<close>

definition required_note :: "schema \<Rightarrow> schema" where
  \<comment> \<open>the note added for \<^verbatim>\<open>Required[T]\<close>\<close>
  "required_note inner_schema =
     (if has_key inner_schema ''description''
      then dict_set inner_schema ''description''
             (JStr (strip (description_text inner_schema @ '' (explicitly required)'')))
      else dict_set inner_schema ''description'' (JStr ''(explicitly required)''))"

definition literal_schema :: "reflection \<Rightarrow> literal list \<Rightarrow> schema" where
  "literal_schema R enum_values =
     (let schema_type =
            (case enum_values of
               [] \<Rightarrow> ''string''
             | v # _ \<Rightarrow> (case v of LitBool _ \<Rightarrow> ''boolean'' | LitInt _ \<Rightarrow> ''integer''
                          | LitFloat _ \<Rightarrow> ''number'' | _ \<Rightarrow> ''string''));
          enum_desc = ''Must be one of: '' @ join '', '' (map (repr_of R) enum_values)
      in [(''type'', JStr schema_type), (''enum'', JList (map JLit enum_values)),
          (''description'', JStr enum_desc)])"

definition is_none_marker :: "pytype \<Rightarrow> bool" where
  \<comment> \<open>\<^verbatim>\<open>arg is type(None) or arg is NotGiven\<close>\<close>
  "is_none_marker t = (case t of TNone \<Rightarrow> True | TClass is_not_given _ _ \<Rightarrow> is_not_given
                       | _ \<Rightarrow> False)"

definition non_none_args :: "pytype list \<Rightarrow> pytype list" where
  "non_none_args args = filter (\<lambda>arg. \<not> is_none_marker arg) args"

definition is_optional :: "pytype list \<Rightarrow> bool" where
  \<comment> \<open>\<^verbatim>\<open>type(None) in args or NotGiven in args\<close>\<close>
  "is_optional args = list_ex is_none_marker args"

definition optional_note :: "bool \<Rightarrow> schema \<Rightarrow> schema" where
  \<comment> \<open>the single remaining member of a union\<close>
  "optional_note optional schema =
     (if optional
      then (if has_key schema ''description''
            then dict_set schema ''description''
                   (JStr (description_text schema @ '' (optional)''))
            else dict_set schema ''description'' (JStr ''Optional''))
      else schema)"

definition one_of_schema :: "reflection \<Rightarrow> pytype list \<Rightarrow> string \<Rightarrow> schema list \<Rightarrow> schema" where
  \<comment> \<open>two or more remaining members; \<open>member_schemas\<close> are their fragments in order\<close>
  "one_of_schema R args param_name member_schemas =
     (let optional = is_optional args;
          one_of_schemas = member_schemas @ (if optional then [null_schema] else []);
          type_names_for_desc = map (name_or_str R) (non_none_args args);
          union_desc = ''One of the following types: '' @ join '', '' type_names_for_desc
                       @ (if optional then '' or null'' else []);
          final_schema = [(''oneOf'', JList (map JObj one_of_schemas)),
                          (''description'', JStr union_desc)]
      in if is_special_parameter param_name
         then dict_set final_schema ''description''
                (JStr (get_union_type_description_enhancement param_name union_desc))
         else final_schema)"

definition union_schema :: "reflection \<Rightarrow> pytype list \<Rightarrow> string \<Rightarrow> schema list \<Rightarrow> schema" where
  \<comment> \<open>the branch for \<^verbatim>\<open>Union\<close>, from the fragments of the remaining members\<close>
  "union_schema R args param_name member_schemas =
     (case member_schemas of
        [] \<Rightarrow> null_schema
      | [schema] \<Rightarrow> optional_note (is_optional args) schema
      | _ \<Rightarrow> one_of_schema R args param_name member_schemas)"

definition member_param_name :: "reflection \<Rightarrow> bool \<Rightarrow> pytype \<Rightarrow> string \<Rightarrow> string" where
  \<comment> \<open>the name passed down for a member: \<^verbatim>\<open>param_name\<close> for a single member,
      \<^verbatim>\<open>getattr(arg_type, "__name__", param_name)\<close> in the loop over several\<close>
  "member_param_name R only_one arg_type param_name =
     (if only_one then param_name
      else (case getattr_name R arg_type of Some n \<Rightarrow> n | None \<Rightarrow> param_name))"

subsection \<open>Field documentation of a TypedDict\<close>

type_synonym doc_state = "(string \<times> string) list \<times> string option \<times> string list"

definition save_field_doc :: "doc_state \<Rightarrow> (string \<times> string) list" where
  \<comment> \<open>\<^verbatim>\<open>if current_field and current_doc_lines: field_docs[current_field] = ...\<close>\<close>
  "save_field_doc st =
     (case st of (field_docs, current_field, current_doc_lines) \<Rightarrow>
        (case current_field of
           None \<Rightarrow> field_docs
         | Some field \<Rightarrow>
             if field \<noteq> [] \<and> current_doc_lines \<noteq> []
             then dict_set field_docs field (strip (join '' '' current_doc_lines))
             else field_docs))"

definition field_doc_line :: "string list \<Rightarrow> doc_state \<Rightarrow> string \<Rightarrow> doc_state" where
  \<comment> \<open>one turn of the loop over the lines\<close>
  "field_doc_line field_names st line =
     (case st of (field_docs, current_field, current_doc_lines) \<Rightarrow>
        (let stripped_line = strip line in
         if stripped_line = [] then (save_field_doc st, None, [])
         else
           (case find (\<lambda>field_name. startswith stripped_line (field_name @ '':'')
                          \<or> startswith stripped_line (field_name @ '' ('')) field_names of
              Some field_name \<Rightarrow>
                (let desc_part = (if CHR '':'' \<in> set stripped_line
                                  then strip (after_first_colon stripped_line) else [])
                 in (save_field_doc st, Some field_name,
                     if desc_part \<noteq> [] then [desc_part] else []))
            | None \<Rightarrow>
                (case current_field of
                   None \<Rightarrow> st
                 | Some field \<Rightarrow>
                     if field \<noteq> []
                     then (field_docs, current_field, current_doc_lines @ [stripped_line])
                     else st))))"

definition parse_typeddict_field_docstrings ::
  "string \<Rightarrow> string list \<Rightarrow> (string \<times> string) list" where
  \<comment> \<open>\<^verbatim>\<open>_parse_typeddict_field_docstrings\<close>\<close>
  "parse_typeddict_field_docstrings class_docstring field_names =
     (if class_docstring = [] then []
      else save_field_doc
             (foldl (field_doc_line field_names) ([], None, [])
                (split_on (CHR 0x0A) class_docstring)))"

subsection \<open>TypedDict, containers, classes\<close>

definition is_not_required :: "pytype \<Rightarrow> bool" where
  "is_not_required t = (case t of TNotRequired _ \<Rightarrow> True | _ \<Rightarrow> False)"

definition is_required :: "pytype \<Rightarrow> bool" where
  "is_required t = (case t of TRequired _ \<Rightarrow> True | _ \<Rightarrow> False)"

definition is_union_with_none :: "pytype \<Rightarrow> bool" where
  \<comment> \<open>\<^verbatim>\<open>get_origin(v) is Union and type(None) in get_args(v)\<close>\<close>
  "is_union_with_none t = (case t of TUnion args \<Rightarrow> TNone \<in> set args | _ \<Rightarrow> False)"

definition required_keys_of ::
  "(string \<times> pytype) list \<Rightarrow> string list option \<Rightarrow> bool \<Rightarrow> string set" where
  \<comment> \<open>the set \<^verbatim>\<open>required_keys_set\<close>\<close>
  "required_keys_of field_hints required_keys is_total =
     (let from_class =
            (case required_keys of
               Some keys \<Rightarrow> set keys
             | None \<Rightarrow>
                 if is_total
                 then set (map fst (filter (\<lambda>(k, v). \<not> (is_not_required v \<or> is_union_with_none v))
                                      field_hints))
                      - set (map fst (filter (\<lambda>(k, v). is_not_required v) field_hints))
                 else {})
      in from_class \<union> set (map fst (filter (\<lambda>(k, v). is_required v) field_hints)))"

definition field_property ::
  "(string \<times> string) list \<Rightarrow> string \<Rightarrow> schema \<Rightarrow> schema" where
  \<comment> \<open>the description given to the fragment of one field\<close>
  "field_property field_docstrings field_name field_schema =
     (if has_key field_docstrings field_name
      then dict_set field_schema ''description''
             (JStr (dict_get field_docstrings field_name []))
      else if \<not> has_key field_schema ''description''
      then dict_set field_schema ''description'' (JStr (''Field: '' @ field_name))
      else field_schema)"

definition typeddict_schema ::
  "string \<Rightarrow> (string \<times> pytype) list \<Rightarrow> string \<Rightarrow> string list option \<Rightarrow> bool
   \<Rightarrow> (string \<times> schema) list \<Rightarrow> schema" where
  \<comment> \<open>the branch for a TypedDict, from the fragments of its fields in the order of the
      hints\<close>
  "typeddict_schema type_name field_hints docstring required_keys is_total field_schemas =
     (let field_docstrings = parse_typeddict_field_docstrings docstring (map fst field_hints);
          required_keys_set = required_keys_of field_hints required_keys is_total;
          properties = foldl (\<lambda>props (field_name, field_schema).
                          dict_set props field_name
                            (JObj (field_property field_docstrings field_name field_schema)))
                         [] field_schemas;
          schema = [(''type'', JStr ''object''), (''properties'', JObj properties)];
          schema' = (if required_keys_set \<noteq> {}
                     then dict_set schema ''required''
                            (JList (map JStr (sorted_list_of_set required_keys_set)))
                     else schema);
          main_doc = first_paragraph docstring
      in if main_doc \<noteq> []
            \<and> \<not> list_ex (\<lambda>field_name. contains main_doc (field_name @ '':''))
                  (map fst field_hints)
         then dict_set schema' ''description''
                (JStr (''Object of type '' @ type_name @ '': '' @ main_doc))
         else dict_set schema' ''description'' (JStr (''Object of type '' @ type_name)))"

definition item_param_name :: "string \<Rightarrow> string" where
  "item_param_name param_name = (if param_name \<noteq> [] then param_name @ ''_item'' else ''item'')"

definition value_param_name :: "string \<Rightarrow> string" where
  "value_param_name param_name = (if param_name \<noteq> [] then param_name @ ''_value'' else [])"

definition array_schema :: "reflection \<Rightarrow> pytype \<Rightarrow> string \<Rightarrow> schema \<Rightarrow> schema" where
  \<comment> \<open>the branch for list, set, tuple and the iterable types, from the item's fragment\<close>
  "array_schema R item_type param_name items_schema =
     (let array_description = ''Array of '' @ name_or_str R item_type;
          final_array_schema = [(''type'', JStr ''array''), (''items'', JObj items_schema),
                                (''description'', JStr array_description)]
      in if is_special_parameter param_name
         then (let domain_description = get_parameter_description param_name array_description;
                   domain_examples = get_parameter_examples param_name;
                   described = dict_set final_array_schema ''description''
                                 (JStr domain_description)
               in if domain_examples \<noteq> []
                  then dict_set described ''examples'' (JList domain_examples)
                  else described)
         else final_array_schema)"

definition dict_schema :: "reflection \<Rightarrow> pytype \<Rightarrow> schema \<Rightarrow> schema" where
  "dict_schema R value_type value_schema =
     [(''type'', JStr ''object''), (''additionalProperties'', JObj value_schema),
      (''description'',
       JStr (''Dictionary with string keys and values of type '' @ name_or_str R value_type))]"

definition usable_doc :: "string option \<Rightarrow> bool" where
  \<comment> \<open>\<^verbatim>\<open>raw_doc and not raw_doc.startswith("dict() ->")\<close>\<close>
  "usable_doc raw_doc =
     (case raw_doc of None \<Rightarrow> False
      | Some doc \<Rightarrow> doc \<noteq> [] \<and> \<not> startswith doc ''dict() ->'')"

definition doc_or :: "string option \<Rightarrow> string \<Rightarrow> string" where
  \<comment> \<open>the first paragraph of a usable documentation string, else the fallback text\<close>
  "doc_or raw_doc fallback =
     (case raw_doc of
        None \<Rightarrow> fallback
      | Some doc \<Rightarrow> if usable_doc raw_doc then first_paragraph doc else fallback)"

definition pydantic_schema :: "string \<Rightarrow> string option \<Rightarrow> schema option \<Rightarrow> schema" where
  "pydantic_schema type_name raw_doc exported =
     (case exported of
        Some json_schema \<Rightarrow>
          (let typed = (if \<not> has_key json_schema ''type''
                        then dict_set json_schema ''type'' (JStr ''object'') else json_schema)
           in if \<not> has_key typed ''description''
              then dict_set typed ''description''
                     (JStr (doc_or raw_doc (''Pydantic model: '' @ type_name)))
              else typed)
      | None \<Rightarrow>
          [(''type'', JStr ''object''),
           (''description'', JStr (doc_or raw_doc (''Pydantic model: '' @ type_name)))])"

definition class_schema ::
  "string \<Rightarrow> string option \<Rightarrow> (string \<times> schema) list \<Rightarrow> schema" where
  \<comment> \<open>the branch for any other class, from the fragments of its annotations\<close>
  "class_schema type_name raw_doc annotation_schemas =
     (let raw = (case raw_doc of None \<Rightarrow> [] | Some doc \<Rightarrow> doc);
          description = doc_or (Some raw) (''Object of type '' @ type_name)
      in if annotation_schemas \<noteq> []
         then [(''type'', JStr ''object''),
               (''properties'',
                JObj (foldl (\<lambda>props (attr_name, attr_schema).
                         dict_set props attr_name (JObj attr_schema)) [] annotation_schemas)),
               (''description'', JStr description)]
         else [(''type'', JStr ''object''), (''description'', JStr description)])"

definition fallback_schema :: "string \<Rightarrow> schema" where
  "fallback_schema type_repr =
     (let shown = (if startswith type_repr (''<class '' @ [CHR 0x27])
                      \<and> endswith type_repr (CHR 0x27 # ''>'')
                   then drop 8 (take (length type_repr - 2) type_repr) else type_repr)
      in [(''type'', JStr ''object''),
          (''description'',
           JStr (''Data of type '' @ shown
                 @ '' (schema generation may be incomplete for this type)''))])"

subsection \<open>The translator\<close>

text \<open>
  A call of the translator can end with an exception.  The source has no handler around
  \<^verbatim>\<open>get_type_hints\<close> and none around the access to \<^verbatim>\<open>__annotations__\<close>, so what they raise
  leaves the translator; and each nested call of the translator takes one more frame of
  the interpreter's stack, so a nesting deeper than the frames that are left ends with
  \<^verbatim>\<open>RecursionError\<close>.  The second argument of
  \<open>convert_param_type_to_schema_type\<close> is the number of nested calls of the translator that
  the recursion limit still allows; with none left the call raises at once.

  \<open>convert_body\<close> is the body of the function; its second argument stands for the
  recursive calls, which have one frame less.  A loop that collects fragments stops at
  the first exception.
\<close>

definition on_return :: "('a \<Rightarrow> 'b) \<Rightarrow> py_exception + 'a \<Rightarrow> py_exception + 'b" where
  \<comment> \<open>go on with the value of a call that returned; an exception passes through\<close>
  "on_return f r = (case r of Inl e \<Rightarrow> Inl e | Inr v \<Rightarrow> Inr (f v))"

definition sum_cons ::
  "py_exception + 'a \<Rightarrow> py_exception + 'a list \<Rightarrow> py_exception + 'a list" where
  \<comment> \<open>one turn of a loop that collects results: the exception of this turn, else that of
      the later turns, else the collected list\<close>
  "sum_cons r rs =
     (case r of
        Inl e \<Rightarrow> Inl e
      | Inr v \<Rightarrow> (case rs of Inl e \<Rightarrow> Inl e | Inr vs \<Rightarrow> Inr (v # vs)))"

fun collect :: "('a \<Rightarrow> py_exception + 'b) \<Rightarrow> 'a list \<Rightarrow> py_exception + 'b list" where
  \<comment> \<open>a loop that calls \<open>f\<close> on each element in turn and collects the results\<close>
  "collect f [] = Inr []"
| "collect f (x # xs) = sum_cons (f x) (collect f xs)"

fun actual_field_type :: "pytype \<Rightarrow> pytype" where
  \<comment> \<open>the hint of a TypedDict field without an outer \<^verbatim>\<open>Required\<close> or \<^verbatim>\<open>NotRequired\<close>\<close>
  "actual_field_type (TRequired []) = TAny"
| "actual_field_type (TRequired (a # rest)) = a"
| "actual_field_type (TNotRequired []) = TAny"
| "actual_field_type (TNotRequired (a # rest)) = a"
| "actual_field_type field_type_hint = field_type_hint"

fun convert_body ::
  "reflection \<Rightarrow> (pytype \<Rightarrow> string \<Rightarrow> py_exception + schema) \<Rightarrow> pytype \<Rightarrow> string
   \<Rightarrow> py_exception + schema" where
  "convert_body R rec (TRequired []) param_name = Inr empty_required_schema"
| "convert_body R rec (TRequired (a # rest)) param_name =
     on_return required_note (rec a param_name)"
| "convert_body R rec (TNotRequired []) param_name = Inr empty_required_schema"
| "convert_body R rec (TNotRequired (a # rest)) param_name = rec a param_name"
| "convert_body R rec TInt param_name = Inr [(''type'', JStr ''integer'')]"
| "convert_body R rec TFloat param_name = Inr [(''type'', JStr ''number'')]"
| "convert_body R rec TBool param_name = Inr [(''type'', JStr ''boolean'')]"
| "convert_body R rec TStr param_name = Inr [(''type'', JStr ''string'')]"
| "convert_body R rec TAny param_name = Inr any_schema"
| "convert_body R rec TEmpty param_name = Inr any_schema"
| "convert_body R rec TNone param_name = Inr null_schema"
| "convert_body R rec (TLiteral enum_values) param_name = Inr (literal_schema R enum_values)"
| "convert_body R rec (TUnion args) param_name =
     on_return (union_schema R args param_name)
       (collect (\<lambda>arg_type.
                   rec arg_type
                     (member_param_name R (length (non_none_args args) = 1) arg_type param_name))
          (non_none_args args))"
| "convert_body R rec (TTypedDict type_name docstring keys is_total) param_name =
     (case get_type_hints R type_name of
        Inl e \<Rightarrow> Inl e
      | Inr field_hints \<Rightarrow>
          on_return (typeddict_schema type_name field_hints docstring keys is_total)
            (collect (\<lambda>(field_name, field_type_hint).
                        on_return (Pair field_name)
                          (rec (actual_field_type field_type_hint) field_name))
               field_hints))"
| "convert_body R rec (TContainer []) param_name =
     on_return (array_schema R TAny param_name) (rec TAny (item_param_name param_name))"
| "convert_body R rec (TContainer (item_type # rest)) param_name =
     on_return (array_schema R item_type param_name)
       (rec item_type (item_param_name param_name))"
| "convert_body R rec (TDict (key_type # value_type # rest)) param_name =
     on_return (dict_schema R value_type) (rec value_type (value_param_name param_name))"
| "convert_body R rec (TDict args) param_name =
     on_return (dict_schema R TAny) (rec TAny (value_param_name param_name))"
| "convert_body R rec (TPydantic type_name raw_doc exported) param_name =
     Inr (pydantic_schema type_name raw_doc exported)"
| "convert_body R rec (TClass is_not_given type_name raw_doc) param_name =
     (case class_annotations R type_name of
        Inl e \<Rightarrow> Inl e
      | Inr annotations \<Rightarrow>
          on_return (class_schema type_name raw_doc)
            (collect (\<lambda>(attr_name, attr_type).
                        on_return (Pair attr_name) (rec attr_type attr_name))
               annotations))"
| "convert_body R rec (TOther type_repr) param_name = Inr (fallback_schema type_repr)"

primrec convert_param_type_to_schema_type ::
  "reflection \<Rightarrow> nat \<Rightarrow> pytype \<Rightarrow> string \<Rightarrow> py_exception + schema" where
  "convert_param_type_to_schema_type R 0 = (\<lambda>t param_name. Inl RecursionError)"
| "convert_param_type_to_schema_type R (Suc depth) =
     convert_body R (convert_param_type_to_schema_type R depth)"

subsection \<open>Shapes of annotations\<close>



section \<open>server.py: wrappers and registration\<close>

text \<open>
  A keyword argument is \<^verbatim>\<open>None\<close>, a \<^verbatim>\<open>str\<close> or some other value.  \<^verbatim>\<open>json.loads\<close> is a library
  function and a parameter of the model.  Applied to a string it returns the decoded
  value, raises \<^verbatim>\<open>JSONDecodeError\<close>, or raises another exception: \<^verbatim>\<open>RecursionError\<close> for a
  text nested too deeply, and a plain \<^verbatim>\<open>ValueError\<close> for an integer with more digits than
  the interpreter converts.  An SDK method is given by the parameters of its signature,
  its \<^verbatim>\<open>__doc__\<close> and the outcome of a call with keyword arguments; the type of outcomes
  is left open, so it can hold the exceptions of the method too.
\<close>

datatype pyvalue = VNone | VStr string | VNative json

type_synonym kwargs = "(string \<times> pyvalue) list"


record param =
  par_name :: string
  annotation :: pytype
  has_default :: bool

record 'r sdk_method =
  parameters :: "param list"
  method_doc :: "string option"
  invoke :: "kwargs \<Rightarrow> 'r"





definition simple_annotations :: "param list \<Rightarrow> (string \<times> pytype) list" where
  \<comment> \<open>the annotations \<^verbatim>\<open>make_wrapper\<close> gives the wrapper: \<^verbatim>\<open>str | None\<close> for a parameter
      with a default, \<^verbatim>\<open>str\<close> for one without, and \<^verbatim>\<open>Any\<close> for the result\<close>
  "simple_annotations params =
     dict_set (foldl (\<lambda>annotations p.
                  dict_set annotations (par_name p)
                    (if has_default p then TUnion [TStr, TNone] else TStr)) [] params)
       ''return'' TAny"

definition wrapper_doc :: "string option \<Rightarrow> string \<Rightarrow> string" where
  \<comment> \<open>\<^verbatim>\<open>method.__doc__ or f"Proxy for `{full_name}`"\<close>\<close>
  "wrapper_doc doc full_name =
     (case doc of
        None \<Rightarrow> ''Proxy for `'' @ full_name @ ''`''
      | Some text \<Rightarrow> if text = [] then ''Proxy for `'' @ full_name @ ''`'' else text)"

record tool =
  registered_name :: string
  registered_description :: string
  registered_annotations :: "(string \<times> pytype) list"

definition make_tool :: "string \<Rightarrow> 'r sdk_method \<Rightarrow> tool" where
  \<comment> \<open>what \<^verbatim>\<open>Tool.from_function\<close> receives for one selected method\<close>
  "make_tool full_name method =
     \<lparr>registered_name = map (\<lambda>c. if c = CHR ''.'' then CHR ''_'' else c)
                    (generate_short_tool_name full_name),
      registered_description = wrapper_doc (method_doc method) full_name,
      registered_annotations = simple_annotations (parameters method)\<rparr>"

definition register_tools :: "string list \<Rightarrow> (string \<times> 'r sdk_method) list \<Rightarrow> tool list" where
  \<comment> \<open>the registration loop of the module over the pairs of \<^verbatim>\<open>iter_sdk_methods\<close>; the
      first argument is \<^verbatim>\<open>ALLOWED_TOOLS_SHORT\<close>\<close>
  "register_tools allowed sdk_methods =
     map (\<lambda>(full_name, method). make_tool full_name method)
       (filter (\<lambda>(full_name, method). generate_short_tool_name full_name \<in> set allowed)
          sdk_methods)"

text \<open>Sample values of the reflection functions and two sample methods.\<close>

definition sample_hints :: "string \<Rightarrow> py_exception + (string \<times> pytype) list" where
  \<comment> \<open>four TypedDict classes: \<^verbatim>\<open>VolumeSpec\<close> with two fields, \<^verbatim>\<open>Node\<close> whose field
      \<^verbatim>\<open>children\<close> is a list of \<^verbatim>\<open>Node\<close>, \<^verbatim>\<open>Chain\<close> whose field \<^verbatim>\<open>next\<close> is a \<^verbatim>\<open>Chain\<close>, and
      \<^verbatim>\<open>Broken\<close> with a forward reference that cannot be resolved\<close>
  "sample_hints type_name =
     (if type_name = ''VolumeSpec''
      then Inr [(''source'', TRequired [TLiteral [LitStr ''image'', LitStr ''volume'']]),
                (''size'', TNotRequired [TInt])]
      else if type_name = ''Node''
      then Inr [(''children'', TContainer [TTypedDict ''Node'' [] None True])]
      else if type_name = ''Chain''
      then Inr [(''next'', TTypedDict ''Chain'' [] None True)]
      else if type_name = ''Broken'' then Inl NameError
      else Inr [])"

definition sample_reflection :: reflection where
  \<comment> \<open>no class other than a TypedDict has annotations\<close>
  "sample_reflection =
     \<lparr>alias_name = (\<lambda>t. None), str_of = (\<lambda>t. ''typing.Alias''),
      repr_of = (\<lambda>v. case v of LitStr s \<Rightarrow> [CHR 0x27] @ s @ [CHR 0x27] | _ \<Rightarrow> ''value''),
      get_type_hints = sample_hints, class_annotations = (\<lambda>type_name. Inr [])\<rparr>"

definition sample_method :: "pytype \<Rightarrow> string sdk_method" where
  \<comment> \<open>a method with a required parameter \<^verbatim>\<open>size\<close> of the given type and an optional
      parameter \<^verbatim>\<open>name\<close>\<close>
  "sample_method size_type =
     \<lparr>parameters = [\<lparr>par_name = ''size'', annotation = size_type, has_default = False\<rparr>,
                    \<lparr>par_name = ''name'', annotation = TStr, has_default = True\<rparr>],
      method_doc = None,
      invoke = (\<lambda>kwargs. ''called'')\<rparr>"



section \<open>Facts about the dictionary operations\<close>

lemma map_of_dict_set: "map_of (dict_set d k v) = (map_of d)(k \<mapsto> v)"
  by (induction d) (auto simp: fun_eq_iff)

lemma keys_dict_set: "fst ` set (dict_set d k v) = insert k (fst ` set d)"
  by (simp add: dom_map_of_conv_image_fst [symmetric] map_of_dict_set)

lemma map_of_dict_update: "map_of (dict_update d other) = map_of d ++ map_of (rev other)"
  unfolding dict_update_def
  by (induction other arbitrary: d)
     (auto simp: map_of_dict_set fun_eq_iff map_add_def split: option.splits)

lemma keys_dict_update: "fst ` set (dict_update d other) = fst ` set d \<union> fst ` set other"
proof -
  have "dom (map_of (dict_update d other)) = dom (map_of d) \<union> dom (map_of (rev other))"
    by (simp add: map_of_dict_update Un_commute)
  then show ?thesis
    by (simp add: dom_map_of_conv_image_fst)
qed

lemma fromkeys_set: "set (fromkeys xs) = set xs"
  by (induction xs rule: fromkeys.induct) auto

lemma fromkeys_Nil_iff: "fromkeys xs = [] \<longleftrightarrow> xs = []"
  by (cases xs) auto

lemma fromkeys_distinct: "distinct (fromkeys xs)"
  by (induction xs rule: fromkeys.induct) (auto simp: fromkeys_set)

lemma fromkeys_distinct_id: "distinct xs \<Longrightarrow> fromkeys xs = xs"
proof (induction xs)
  case Nil
  show ?case by simp
next
  case (Cons x xs)
  then have "filter (\<lambda>y. y \<noteq> x) xs = xs"
    by (auto intro: filter_True)
  with Cons show ?case by simp
qed

section \<open>Facts about the shortening rules and the toolset table\<close>

lemma lookup_last_rev:
  "lookup_last d k r = (case map_of (rev d) k of Some v \<Rightarrow> Some v | None \<Rightarrow> r)"
  by (induction d k r rule: lookup_last.induct) (auto simp: map_add_def split: option.splits)

lemma shortening_rule_lookup:
  "dict_get get_shortening_rules k k =
     (case lookup_last additional_rules k None of Some v \<Rightarrow> v
      | None \<Rightarrow> (case lookup_last get_method_shortening_rules k None of Some v \<Rightarrow> v
      | None \<Rightarrow> (case lookup_last get_resource_shortening_rules k None of Some v \<Rightarrow> v
      | None \<Rightarrow> k)))"
  by (simp add: dict_get_def get_shortening_rules_def map_of_dict_update map_add_def
        lookup_last_rev split: option.splits)

lemma generated_lookup:
  "map_of (foldl (\<lambda>acc (k, l). dict_set acc k (f l)) d xs) key =
     (case map_of (rev xs) key of Some l \<Rightarrow> Some (f l) | None \<Rightarrow> map_of d key)"
  by (induction xs arbitrary: d)
     (auto simp: map_of_dict_set map_add_def split: option.splits)

lemma generated_keys:
  "fst ` set (foldl (\<lambda>acc (k, l). dict_set acc k (f l)) d xs) = fst ` set d \<union> fst ` set xs"
proof (induction xs arbitrary: d)
  case Nil
  show ?case by simp
next
  case (Cons x xs)
  obtain k l where x: "x = (k, l)" by (cases x)
  have "fst ` set (foldl (\<lambda>acc (k, l). dict_set acc k (f l)) (dict_set d k (f l)) xs) =
          insert k (fst ` set d) \<union> fst ` set xs"
    by (simp add: Cons.IH keys_dict_set)
  then show ?case by (simp add: x)
qed

lemma TOOLSETS_lookup:
  "map_of TOOLSETS key =
     map_option (map generate_short_tool_name) (map_of (rev get_raw_toolsets) key)"
  by (simp add: TOOLSETS_def generate_toolsets_def generated_lookup split: option.splits)

lemma fromkeys_idem: "fromkeys (fromkeys xs) = fromkeys xs"
  by (rule fromkeys_distinct_id) (rule fromkeys_distinct)

lemma raw_toolsets_value:
  "get_raw_toolsets =
     [(''instances'', domain_toolset_instances),
      (''baremetal'', additional_toolset_baremetal),
      (''gpu'', domain_toolset_gpu),
      (''networking'', domain_toolset_networking),
      (''security'', domain_toolset_security),
      (''storage'', domain_toolset_storage),
      (''management'', domain_toolset_management),
      (''ai'', domain_toolset_ai),
      (''containers'', domain_toolset_containers),
      (''gpu_baremetal'', additional_toolset_gpu_baremetal),
      (''ai_ml'', additional_toolset_ai_ml),
      (''cleanup'', additional_toolset_cleanup),
      (''list'', additional_toolset_list)]"
  by (simp add: get_raw_toolsets_def dict_update_def get_toolset_definitions_def
        additional_toolsets_def)

lemma TOOLSETS_keys:
  "fst ` set TOOLSETS =
     set [''instances'', ''baremetal'', ''gpu'', ''networking'', ''security'', ''storage'',
          ''management'', ''ai'', ''containers'', ''gpu_baremetal'', ''ai_ml'', ''cleanup'',
          ''list'']"
  by (simp add: TOOLSETS_def generate_toolsets_def generated_keys raw_toolsets_value)

lemmas short_name_eval = generate_short_tool_name_def generate_short_tool_name_max_def
  short_name_untruncated_def MAX_TOOL_NAME_LEN_def

lemma shortening_rules_at:
  "dict_get get_shortening_rules ''cloud'' ''cloud'' = ''cloud''"
  "dict_get get_shortening_rules ''baremetal'' ''baremetal'' = ''bm''"
  "dict_get get_shortening_rules ''create'' ''create'' = ''new''"
  "dict_get get_shortening_rules ''list'' ''list'' = ''ls''"
  "dict_get get_shortening_rules ''get'' ''get'' = ''get''"
  "dict_get get_shortening_rules ''update'' ''update'' = ''upd''"
  "dict_get get_shortening_rules ''delete'' ''delete'' = ''del''"
  "dict_get get_shortening_rules ''action'' ''action'' = ''act''"
  "dict_get get_shortening_rules ''resize'' ''resize'' = ''resz''"
  "dict_get get_shortening_rules ''get_console'' ''get_console'' = ''get_con''"
  "dict_get get_shortening_rules ''assign_security_group'' ''assign_security_group'' = ''assign_secgrp''"
  "dict_get get_shortening_rules ''unassign_security_group'' ''unassign_security_group'' = ''unassign_secgrp''"
  "dict_get get_shortening_rules ''add_to_placement_group'' ''add_to_placement_group'' = ''add_placegrp''"
  "dict_get get_shortening_rules ''remove_from_placement_group'' ''remove_from_placement_group'' = ''rm_placegrp''"
  "dict_get get_shortening_rules ''disable_port_security'' ''disable_port_security'' = ''dis_portsec''"
  "dict_get get_shortening_rules ''enable_port_security'' ''enable_port_security'' = ''en_portsec''"
  "dict_get get_shortening_rules ''flavors'' ''flavors'' = ''flavs''"
  "dict_get get_shortening_rules ''list_suitable'' ''list_suitable'' = ''ls_suit''"
  "dict_get get_shortening_rules ''interfaces'' ''interfaces'' = ''ifaces''"
  "dict_get get_shortening_rules ''attach'' ''attach'' = ''att''"
  "dict_get get_shortening_rules ''detach'' ''detach'' = ''det''"
  "dict_get get_shortening_rules ''metrics'' ''metrics'' = ''metr''"
  "dict_get get_shortening_rules ''images'' ''images'' = ''imgs''"
  "dict_get get_shortening_rules ''servers'' ''servers'' = ''srvs''"
  "dict_get get_shortening_rules ''rebuild'' ''rebuild'' = ''rebuild''"
  "dict_get get_shortening_rules ''projects'' ''projects'' = ''projs''"
  "dict_get get_shortening_rules ''regions'' ''regions'' = ''rgns''"
  "dict_get get_shortening_rules ''placement_groups'' ''placement_groups'' = ''placegrps''"
  "dict_get get_shortening_rules ''tasks'' ''tasks'' = ''tsks''"
  "dict_get get_shortening_rules ''acknowledge_all'' ''acknowledge_all'' = ''ack_all''"
  "dict_get get_shortening_rules ''acknowledge_one'' ''acknowledge_one'' = ''ack_one''"
  "dict_get get_shortening_rules ''quotas'' ''quotas'' = ''qotas''"
  "dict_get get_shortening_rules ''instances'' ''instances'' = ''insts''"
  "dict_get get_shortening_rules ''list_for_resize'' ''list_for_resize'' = ''ls_resz''"
  "dict_get get_shortening_rules ''create_from_volume'' ''create_from_volume'' = ''new_vol''"
  "dict_get get_shortening_rules ''upload'' ''upload'' = ''upl''"
  "dict_get get_shortening_rules ''volumes'' ''volumes'' = ''vols''"
  by (simp_all add: shortening_rule_lookup additional_rules_def
        get_method_shortening_rules_def get_resource_shortening_rules_def)
lemma short_names_management:
  "map generate_short_tool_name domain_toolset_management =
     [''cloud.projs.new'',
      ''cloud.projs.ls'',
      ''cloud.projs.get'',
      ''cloud.projs.upd'',
      ''cloud.projs.del'',
      ''cloud.rgns.ls'',
      ''cloud.rgns.get'',
      ''cloud.placegrps.new'',
      ''cloud.placegrps.ls'',
      ''cloud.placegrps.get'',
      ''cloud.placegrps.upd'',
      ''cloud.placegrps.del'',
      ''cloud.tsks.ls'',
      ''cloud.tsks.get'',
      ''cloud.tsks.ack_all'',
      ''cloud.tsks.ack_one'',
      ''cloud.qotas.ls'',
      ''cloud.qotas.get'']"
  by (simp add: domain_toolset_management_def short_name_eval shortening_rules_at)

lemma short_names_instances:
  "map generate_short_tool_name domain_toolset_instances =
     [''cloud.insts.new'',
      ''cloud.insts.ls'',
      ''cloud.insts.get'',
      ''cloud.insts.upd'',
      ''cloud.insts.del'',
      ''cloud.insts.assign_secgrp'',
      ''cloud.insts.unassign_secgrp'',
      ''cloud.insts.resz'',
      ''cloud.insts.get_con'',
      ''cloud.insts.add_placegrp'',
      ''cloud.insts.rm_placegrp'',
      ''cloud.insts.dis_portsec'',
      ''cloud.insts.en_portsec'',
      ''cloud.insts.act'',
      ''cloud.insts.flavs.ls'',
      ''cloud.insts.flavs.ls_suit'',
      ''cloud.insts.flavs.ls_resz'',
      ''cloud.insts.ifaces.ls'',
      ''cloud.insts.ifaces.att'',
      ''cloud.insts.ifaces.det'',
      ''cloud.insts.imgs.new_vol'',
      ''cloud.insts.imgs.ls'',
      ''cloud.insts.imgs.get'',
      ''cloud.insts.imgs.upd'',
      ''cloud.insts.imgs.del'',
      ''cloud.insts.imgs.upl'',
      ''cloud.insts.metr.ls'']"
  by (simp add: domain_toolset_instances_def short_name_eval shortening_rules_at)

lemma short_names_additional_baremetal:
  "map generate_short_tool_name additional_toolset_baremetal =
     [''cloud.bm.imgs.ls'',
      ''cloud.bm.flavs.ls'',
      ''cloud.bm.flavs.ls_suit'',
      ''cloud.bm.srvs.new'',
      ''cloud.bm.srvs.ls'',
      ''cloud.bm.srvs.rebuild'']"
  by (simp add: additional_toolset_baremetal_def short_name_eval shortening_rules_at)

lemma short_names_domain_baremetal:
  "map generate_short_tool_name domain_toolset_baremetal =
     [''cloud.bm.new'',
      ''cloud.bm.ls'',
      ''cloud.bm.get'',
      ''cloud.bm.upd'',
      ''cloud.bm.del'',
      ''cloud.bm.act'',
      ''cloud.bm.resz'',
      ''cloud.bm.get_con'',
      ''cloud.bm.assign_secgrp'',
      ''cloud.bm.unassign_secgrp'',
      ''cloud.bm.add_placegrp'',
      ''cloud.bm.rm_placegrp'',
      ''cloud.bm.dis_portsec'',
      ''cloud.bm.en_portsec'',
      ''cloud.bm.flavs.ls'',
      ''cloud.bm.flavs.ls_suit'',
      ''cloud.bm.ifaces.ls'',
      ''cloud.bm.ifaces.att'',
      ''cloud.bm.ifaces.det'',
      ''cloud.bm.metr.ls'']"
  by (simp add: domain_toolset_baremetal_def short_name_eval shortening_rules_at)

section \<open>The length bound of the name shortener\<close>

lemma py_slice_to_length:
  "0 \<le> n \<Longrightarrow> length (py_slice_to xs n) = min (nat n) (length xs)"
  by (simp add: py_slice_to_def)

lemma generate_short_tool_name_max_bound:
  "0 \<le> max_len \<Longrightarrow> int (length (generate_short_tool_name_max name max_len)) \<le> max_len"
  by (auto simp: generate_short_tool_name_max_def Let_def py_slice_to_length)

text \<open>
  Claim C9.  With the default maximum of 60, the result of \<open>generate_short_tool_name\<close>
  never has more than 60 characters: when the rejoined string of shortened segments has at
  most 60 characters it is the result, and otherwise the result is its first 60 characters,
  so it has exactly 60.  The shortener is a function of the name and of the constant rule
  tables alone, so two calls on one name give one result.
\<close>

theorem short_name_length_bound:
  "length (generate_short_tool_name name) \<le> 60
   \<and> (length (short_name_untruncated name) \<le> 60
        \<longrightarrow> generate_short_tool_name name = short_name_untruncated name)
   \<and> (60 < length (short_name_untruncated name)
        \<longrightarrow> generate_short_tool_name name = take 60 (short_name_untruncated name)
            \<and> length (generate_short_tool_name name) = 60)"
  by (simp add: generate_short_tool_name_def generate_short_tool_name_max_def
        MAX_TOOL_NAME_LEN_def py_slice_to_def Let_def)

lemma long_name_untruncated:
  "short_name_untruncated
     ''cloud.gpu_baremetal_clusters.servers.attach_interface.with_a_very_long_trailing_segment''
   = ''cloud.gpu_bm_clusters.srvs.attach_interface.with_a_very_long_trailing_segment''"
  by (simp add: short_name_untruncated_def shortening_rule_lookup additional_rules_def
        get_method_shortening_rules_def get_resource_shortening_rules_def)

theorem short_name_length_bound_witness:
  "60 < length (short_name_untruncated
     ''cloud.gpu_baremetal_clusters.servers.attach_interface.with_a_very_long_trailing_segment'')
   \<and> generate_short_tool_name
     ''cloud.gpu_baremetal_clusters.servers.attach_interface.with_a_very_long_trailing_segment''
     = ''cloud.gpu_bm_clusters.srvs.attach_interface.with_a_very_long''
   \<and> length (short_name_untruncated ''cloud.instances.create'') \<le> 60
   \<and> generate_short_tool_name ''cloud.instances.create'' = ''cloud.insts.new''"
proof -
  have short: "short_name_untruncated ''cloud.instances.create'' = ''cloud.insts.new''"
    by (simp add: short_name_untruncated_def shortening_rules_at)
  show ?thesis
    using short_name_length_bound
        [of "''cloud.gpu_baremetal_clusters.servers.attach_interface.with_a_very_long_trailing_segment''"]
      short_name_length_bound [of "''cloud.instances.create''"]
    unfolding long_name_untruncated short
    by simp
qed


section \<open>Tool selection without and with an empty configuration\<close>

lemma TOOLSETS_at:
  "map_of TOOLSETS ''management'' = Some (map generate_short_tool_name domain_toolset_management)"
  "map_of TOOLSETS ''instances'' = Some (map generate_short_tool_name domain_toolset_instances)"
  "map_of TOOLSETS ''baremetal'' =
     Some (map generate_short_tool_name additional_toolset_baremetal)"
  by (simp_all add: TOOLSETS_lookup raw_toolsets_value)

lemma default_tools_value: "toolset_tools_of DEFAULT_TOOLSETS = default_tools"
  by (simp add: toolset_tools_of_def DEFAULT_TOOLSETS_def TOOLSETS_at
        short_names_management short_names_instances default_tools_def)

lemma toolset_tools_of_idem: "fromkeys (toolset_tools_of names) = toolset_tools_of names"
  by (simp add: toolset_tools_of_def fromkeys_idem)

lemma allowed_tools_unset:
  "get_allowed_tools_list None available = toolset_tools_of DEFAULT_TOOLSETS"
  by (simp add: get_allowed_tools_list_def get_unified_tool_config_def fromkeys_idem
        toolset_tools_of_def [symmetric] toolset_tools_of_idem split: option.splits)

lemma toolset_tools_of_Nil: "toolset_tools_of [] = []"
  by (simp add: toolset_tools_of_def)

lemma allowed_tools_empty_value: "get_allowed_tools_list (Some []) available = []"
  by (simp add: get_allowed_tools_list_def get_unified_tool_config_def toolset_tools_of_Nil
        split: option.splits)

text \<open>
  Claim C6.  When the environment variable is unset, \<open>get_allowed_tools_list\<close> returns the
  tools of the default toolsets \<^verbatim>\<open>management\<close> and \<^verbatim>\<open>instances\<close>; when it is set to the
  empty string the result is the empty list, with no fallback; the two results differ,
  whatever list of available tools is passed.
\<close>

theorem unset_and_empty_configuration:
  "get_allowed_tools_list None available = toolset_tools_of DEFAULT_TOOLSETS
   \<and> get_allowed_tools_list None available = default_tools
   \<and> get_allowed_tools_list (Some []) available = []
   \<and> get_allowed_tools_list None available \<noteq> get_allowed_tools_list (Some []) available"
  by (simp add: allowed_tools_unset allowed_tools_empty_value default_tools_value)
     (simp add: default_tools_def)


section \<open>The toolset defined twice\<close>

lemma ball_zip_map:
  "(\<forall>x \<in> set xs. P x (f x)) \<longleftrightarrow> list_all (\<lambda>(x, y). P x y) (zip xs (map f xs))"
  by (induction xs) auto

lemma raw_baremetal:
  "map_of get_raw_toolsets ''baremetal'' = Some additional_toolset_baremetal"
  by (simp add: raw_toolsets_value)

lemma parse_baremetal: "parse_unified_tool_config ''baremetal'' = ([''baremetal''], [])"
  by (simp add: parse_unified_tool_config_def TOOLSETS_keys strip_def py_isspace_def)

lemma allowed_tools_baremetal:
  "get_allowed_tools_list (Some ''baremetal'') available =
     [''cloud.bm.imgs.ls'',
      ''cloud.bm.flavs.ls'',
      ''cloud.bm.flavs.ls_suit'',
      ''cloud.bm.srvs.new'',
      ''cloud.bm.srvs.ls'',
      ''cloud.bm.srvs.rebuild'']"
  by (simp add: get_allowed_tools_list_def get_unified_tool_config_def parse_baremetal
        toolset_tools_of_def TOOLSETS_at short_names_additional_baremetal
        split: option.splits)

text \<open>
  Claim C10.  The toolset \<^verbatim>\<open>baremetal\<close> is defined by the domain handler (twenty names) and
  again in the additional table of \<open>get_raw_toolsets\<close> (six names).  The merged table keeps
  the additional list only, the shortened table holds its six shortened names, selecting
  the toolset by its name yields exactly these six, and no name of the domain handler's
  list that is missing from the additional list is selected through the toolset name.
\<close>

theorem baremetal_keeps_additional_definition:
  "map_of get_raw_toolsets ''baremetal'' =
     Some [''cloud.baremetal.images.list'',
          ''cloud.baremetal.flavors.list'',
          ''cloud.baremetal.flavors.list_suitable'',
          ''cloud.baremetal.servers.create'',
          ''cloud.baremetal.servers.list'',
          ''cloud.baremetal.servers.rebuild'']
   \<and> length domain_toolset_baremetal = 20
   \<and> map_of TOOLSETS ''baremetal'' =
     Some [''cloud.bm.imgs.ls'',
          ''cloud.bm.flavs.ls'',
          ''cloud.bm.flavs.ls_suit'',
          ''cloud.bm.srvs.new'',
          ''cloud.bm.srvs.ls'',
          ''cloud.bm.srvs.rebuild'']
   \<and> get_allowed_tools_list (Some ''baremetal'') available =
     [''cloud.bm.imgs.ls'',
      ''cloud.bm.flavs.ls'',
      ''cloud.bm.flavs.ls_suit'',
      ''cloud.bm.srvs.new'',
      ''cloud.bm.srvs.ls'',
      ''cloud.bm.srvs.rebuild'']
   \<and> (\<forall>name \<in> set domain_toolset_baremetal.
         name \<notin> set additional_toolset_baremetal \<longrightarrow>
         generate_short_tool_name name
           \<notin> set (get_allowed_tools_list (Some ''baremetal'') available))"
proof -
  have "list_all (\<lambda>(name, short). name \<notin> set additional_toolset_baremetal \<longrightarrow>
            short \<notin> set (get_allowed_tools_list (Some ''baremetal'') available))
          (zip domain_toolset_baremetal
             (map generate_short_tool_name domain_toolset_baremetal))"
    unfolding allowed_tools_baremetal short_names_domain_baremetal
    by (simp add: domain_toolset_baremetal_def additional_toolset_baremetal_def)
  with ball_zip_map [where xs = domain_toolset_baremetal and f = generate_short_tool_name
      and P = "\<lambda>name short. name \<notin> set additional_toolset_baremetal \<longrightarrow>
            short \<notin> set (get_allowed_tools_list (Some ''baremetal'') available)"]
  have absent: "\<forall>name \<in> set domain_toolset_baremetal.
         name \<notin> set additional_toolset_baremetal \<longrightarrow>
         generate_short_tool_name name
           \<notin> set (get_allowed_tools_list (Some ''baremetal'') available)"
    by blast
  have raw: "map_of get_raw_toolsets ''baremetal'' =
     Some [''cloud.baremetal.images.list'',
          ''cloud.baremetal.flavors.list'',
          ''cloud.baremetal.flavors.list_suitable'',
          ''cloud.baremetal.servers.create'',
          ''cloud.baremetal.servers.list'',
          ''cloud.baremetal.servers.rebuild'']"
    by (simp add: raw_baremetal additional_toolset_baremetal_def)
  have len: "length domain_toolset_baremetal = 20"
    by (simp add: domain_toolset_baremetal_def)
  have short: "map_of TOOLSETS ''baremetal'' =
     Some [''cloud.bm.imgs.ls'',
          ''cloud.bm.flavs.ls'',
          ''cloud.bm.flavs.ls_suit'',
          ''cloud.bm.srvs.new'',
          ''cloud.bm.srvs.ls'',
          ''cloud.bm.srvs.rebuild'']"
    by (simp add: TOOLSETS_at short_names_additional_baremetal)
  from raw len short absent show ?thesis
    by (simp only: allowed_tools_baremetal simp_thms)
qed

theorem baremetal_keeps_additional_definition_witness:
  "''cloud.baremetal.create'' \<in> set domain_toolset_baremetal
   \<and> ''cloud.baremetal.create'' \<notin> set additional_toolset_baremetal
   \<and> generate_short_tool_name ''cloud.baremetal.create'' = ''cloud.bm.new''
   \<and> ''cloud.bm.new'' \<notin> set (get_allowed_tools_list (Some ''baremetal'') None)"
proof -
  have dom: "''cloud.baremetal.create'' \<in> set domain_toolset_baremetal"
    by (simp add: domain_toolset_baremetal_def)
  have add: "''cloud.baremetal.create'' \<notin> set additional_toolset_baremetal"
    by (simp add: additional_toolset_baremetal_def)
  have short: "generate_short_tool_name ''cloud.baremetal.create'' = ''cloud.bm.new''"
    by (simp add: short_name_eval shortening_rules_at)
  from baremetal_keeps_additional_definition [of None] dom add
  have "generate_short_tool_name ''cloud.baremetal.create''
          \<notin> set (get_allowed_tools_list (Some ''baremetal'') None)"
    by blast
  with dom add short show ?thesis by simp
qed


section \<open>Pattern selection\<close>

lemma replace_escaped_star_Cons:
  "(a = CHR 0x5C \<longrightarrow> (case cs of [] \<Rightarrow> True | b # _ \<Rightarrow> b \<noteq> CHR ''*'')) \<Longrightarrow>
   replace_escaped_star (a # cs) = a # replace_escaped_star cs"
  by (cases cs) auto

lemma re_escape_no_leading_star:
  "(case re_escape p of [] \<Rightarrow> True | b # _ \<Rightarrow> b \<noteq> CHR ''*'')"
  by (cases p) (auto simp: re_special_chars_def)

lemma re_parse_escaped_pattern:
  "re_parse (replace_escaped_star (re_escape p)) = Some (map pattern_item p)"
proof (induction p)
  case Nil
  show ?case by simp
next
  case (Cons c p)
  have tail: "replace_escaped_star (c # re_escape p) = c # replace_escaped_star (re_escape p)"
    using re_escape_no_leading_star [of p] by (intro replace_escaped_star_Cons) simp
  show ?case
  proof (cases "c = CHR ''*''")
    case True
    then show ?thesis
      using Cons.IH by (simp add: pattern_item_def re_special_chars_def)
  next
    case False
    show ?thesis
    proof (cases "c \<in> set re_special_chars")
      case True
      with False have "replace_escaped_star (re_escape (c # p)) =
          CHR 0x5C # c # replace_escaped_star (re_escape p)"
        using tail by (cases "re_escape p") auto
      with True False show ?thesis
        using Cons.IH by (simp add: pattern_item_def)
    next
      case special: False
      then have "c \<noteq> CHR 0x5C" "c \<noteq> CHR ''.''"
        by (auto simp: re_special_chars_def)
      with special False show ?thesis
        using Cons.IH tail by (simp add: pattern_item_def)
    qed
  qed
qed

lemma pattern_matches_items:
  "pattern_matches pattern tool_name \<longleftrightarrow>
     pattern = tool_name \<or>
     (CHR ''*'' \<in> set pattern \<and> re_items_match (map pattern_item pattern) tool_name)"
  by (simp add: pattern_matches_def re_match_def re_parse_escaped_pattern)

lemma pattern_without_star:
  "CHR ''*'' \<notin> set pattern \<Longrightarrow> pattern_matches pattern tool_name \<longleftrightarrow> pattern = tool_name"
  by (simp add: pattern_matches_def)

lemma re_items_match_skip_star:
  "re_items_match items s \<Longrightarrow> re_items_match (AnyStar # items) s"
  by (cases s) auto

lemma re_items_match_append:
  "re_items_match items s \<Longrightarrow> re_items_match items (s @ rest)"
proof (induction items s rule: re_items_match.induct)
  case (4 r)
  then show ?case by (simp add: re_items_match_skip_star)
qed auto

lemma re_items_match_self: "re_items_match (map pattern_item p) p"
  by (induction p) (auto simp: pattern_item_def re_items_match_skip_star)

lemma glob_full_match_items:
  "glob_full_match pattern name \<Longrightarrow> CHR 0x0A \<notin> set name \<Longrightarrow>
   re_items_match (map pattern_item pattern) name"
  by (induction pattern name rule: glob_full_match.induct)
     (auto simp: pattern_item_def split: if_splits)

text \<open>
  Every match of the specification's rule on a name without a line break is a match of the
  code's test, and the code's test goes on to accept every extension of a matched name.
\<close>

lemma spec_match_is_code_match:
  "spec_pattern_matches pattern name \<Longrightarrow> CHR 0x0A \<notin> set name \<Longrightarrow>
   pattern_matches pattern name"
  by (auto simp: spec_pattern_matches_def pattern_matches_items glob_full_match_items)

lemma code_match_extends:
  "CHR ''*'' \<in> set pattern \<Longrightarrow> pattern_matches pattern name \<Longrightarrow>
   pattern_matches pattern (name @ rest)"
  using re_items_match_self [of pattern]
  by (auto simp: pattern_matches_items re_items_match_append)

lemma parse_star_pattern:
  "parse_unified_tool_config ''cloud.*.list'' = ([], [''cloud.*.list''])"
  by (simp add: parse_unified_tool_config_def TOOLSETS_keys strip_def py_isspace_def)

lemma star_pattern_code_match:
  "pattern_matches ''cloud.*.list'' ''cloud.instances.list_suitable''"
  by (simp add: pattern_matches_items pattern_item_def)

lemma star_pattern_no_spec_match:
  "\<not> spec_pattern_matches ''cloud.*.list'' ''cloud.instances.list_suitable''"
  by (simp add: spec_pattern_matches_def)

text \<open>
  Claim C1.  The claim reads the pattern test as anchored at both ends of the name.  The
  test in \<open>get_allowed_tools_list\<close> hands the translated pattern to \<^verbatim>\<open>re.match\<close> without
  the end anchor that \<open>convert_pattern_to_regex\<close> adds, so a pattern that matches a proper
  prefix of a name selects the name: the pattern \<^verbatim>\<open>cloud.*.list\<close> selects
  \<^verbatim>\<open>cloud.instances.list_suitable\<close>, which the anchored reading rejects.
\<close>

theorem pattern_test_not_anchored_at_end:
  "pattern_matches ''cloud.*.list'' ''cloud.instances.list_suitable''
   \<and> \<not> spec_pattern_matches ''cloud.*.list'' ''cloud.instances.list_suitable''
   \<and> get_allowed_tools_list (Some ''cloud.*.list'') (Some [''cloud.instances.list_suitable''])
       = [''cloud.insts.ls_suit'']"
  by (simp add: star_pattern_code_match star_pattern_no_spec_match get_allowed_tools_list_def
        get_unified_tool_config_def parse_star_pattern toolset_tools_of_Nil
        pattern_matched_names_def short_name_eval shortening_rules_at)


section \<open>The catalog invariant\<close>

lemma no_empty_entry_dict_set:
  "no_empty_entry d \<Longrightarrow> e \<noteq> [] \<Longrightarrow> no_empty_entry (dict_set d k e)"
  by (induction d) (auto simp: no_empty_entry_def)

lemma no_empty_entry_lookup:
  "no_empty_entry d \<Longrightarrow> map_of d k = Some e \<Longrightarrow> e \<noteq> []"
  by (induction d) (auto simp: no_empty_entry_def split: if_splits)

lemma dict_set_not_Nil: "dict_set d k v \<noteq> []"
  by (cases d) (auto split: if_splits)

lemma inspect_methods_keeps_nonempty:
  "entry \<noteq> [] \<Longrightarrow> snd (inspect_methods skip meths entry) \<noteq> []"
  by (induction skip meths entry rule: inspect_methods.induct)
     (auto simp: dict_set_not_Nil split: inspect_outcome.splits)

lemma inspect_own_methods_invariant:
  assumes "no_empty_entry d"
  shows "no_empty_entry (snd (inspect_own_methods meths path d))"
proof (cases "map_of d path")
  case None
  then show ?thesis
    using assms
    by (auto simp: inspect_own_methods_def Let_def no_empty_entry_dict_set
             split: prod.splits)
next
  case (Some e)
  then have "e \<noteq> []"
    using assms by (rule no_empty_entry_lookup [rotated])
  then have "snd (inspect_methods skip_names meths e) \<noteq> []"
    by (rule inspect_methods_keeps_nonempty)
  with Some assms show ?thesis
    by (auto simp: inspect_own_methods_def Let_def no_empty_entry_dict_set
             split: prod.splits)
qed

text \<open>
  The recursive walk keeps the invariant: it stores \<^verbatim>\<open>resource_entry\<close> only when it is not
  empty.
\<close>

lemma inspect_recursive_invariant:
  "no_empty_entry d \<Longrightarrow> no_empty_entry (snd (inspect_recursive obj parts d base))"
  "no_empty_entry d \<Longrightarrow> no_empty_entry (inspect_members attrs parts d base)"
proof (induction obj parts d base and attrs parts d base
       rule: inspect_recursive_inspect_members.induct)
  case (1 modname cls meths attrs current_path_parts methods_dict base)
  obtain raised d' where own:
    "inspect_own_methods meths (current_path_of cls current_path_parts) methods_dict = (raised, d')"
    by (cases "inspect_own_methods meths (current_path_of cls current_path_parts) methods_dict")
  have inv: "no_empty_entry d'"
    using inspect_own_methods_invariant [OF "1.prems", of meths
        "current_path_of cls current_path_parts"] own by simp
  show ?case
  proof (cases raised)
    case True
    with own inv show ?thesis by simp
  next
    case False
    with own inv "1.IH" [OF own [symmetric] False] show ?thesis by simp
  qed
next
  case (2 current_path_parts methods_dict base)
  then show ?case by simp
next
  case (3 attr_name attr_value rest current_path_parts methods_dict base)
  then show ?case by simp
qed

text \<open>
  Claim C4.  The claim holds for the keys the recursive walk creates, and fails for a key
  created for a service object: \<open>inspect_sdk_methods\<close> stores an empty dictionary under the
  service name before it tries the first method, and when every such method fails with a
  caught \<^verbatim>\<open>ValueError\<close> or \<^verbatim>\<open>TypeError\<close> the key stays in the catalog with no method.
\<close>

theorem service_key_with_no_method:
  "walk_sdk failing_service_client = Some [(''dns'', [])]
   \<and> \<not> no_empty_entry (the (walk_sdk failing_service_client))
   \<and> fst (get_all_resources failing_service_client initial_state) = Some [''dns'']"
  by (simp add: walk_sdk_def failing_service_client_def base_module_name_def
        in_base_module_def startswith_def skip_top_level_def no_empty_entry_def
        get_all_resources_def inspect_sdk_methods_def initial_state_def)


section \<open>The discovery cache\<close>

lemma inspect_sdk_methods_cached:
  "resource_methods_cache s = Some ref \<Longrightarrow> inspect_sdk_methods client s = (Some ref, s)"
  by (simp add: inspect_sdk_methods_def)

lemma inspect_sdk_methods_fresh:
  assumes "resource_methods_cache s = None" and "walk_sdk client = Some d"
  shows "inspect_sdk_methods client s =
           (Some (next_address s),
            s\<lparr>next_address := Suc (next_address s),
              store := (store s)(next_address s \<mapsto> d),
              resource_methods_cache := Some (next_address s)\<rparr>)"
  using assms by (simp add: inspect_sdk_methods_def Let_def)

lemma inspect_sdk_methods_returns:
  assumes "resource_methods_cache s = None" and "inspect_sdk_methods client s = (Some ref, s')"
  shows "\<exists>d. walk_sdk client = Some d \<and> ref = next_address s
             \<and> next_address s' = Suc ref \<and> store s' ref = Some d
             \<and> resource_methods_cache s' = Some ref"
  using assms by (auto simp: inspect_sdk_methods_def Let_def split: option.splits)

text \<open>
  Claim C8.  Let a discovery call on an empty cache return the reference \<open>ref\<close>.  The next
  call returns the same reference and leaves the state as it is.  After
  \<open>clear_inspection_cache\<close> the next call returns too, with a reference different from
  \<open>ref\<close> to a dictionary of equal content, built by a new walk; the dictionary at \<open>ref\<close> is
  still the one the first call built.
\<close>

theorem discovery_cache_identity:
  assumes "resource_methods_cache s = None"
      and "inspect_sdk_methods client s = (Some ref, s1)"
  shows "inspect_sdk_methods client s1 = (Some ref, s1)
         \<and> (\<exists>ref' s2. inspect_sdk_methods client (clear_inspection_cache s1) = (Some ref', s2)
                \<and> ref' \<noteq> ref
                \<and> store s2 ref' = store s2 ref
                \<and> store s2 ref = store s1 ref
                \<and> store s1 ref = walk_sdk client
                \<and> walk_sdk client \<noteq> None)"
proof -
  from inspect_sdk_methods_returns [OF assms]
  obtain d where d: "walk_sdk client = Some d" and ref: "ref = next_address s"
    and nxt: "next_address s1 = Suc ref" and st: "store s1 ref = Some d"
    and cache: "resource_methods_cache s1 = Some ref"
    by blast
  have second: "inspect_sdk_methods client s1 = (Some ref, s1)"
    using cache by (rule inspect_sdk_methods_cached)
  have cleared: "resource_methods_cache (clear_inspection_cache s1) = None"
    by (simp add: clear_inspection_cache_def)
  have third: "inspect_sdk_methods client (clear_inspection_cache s1) =
      (Some (Suc ref),
       (clear_inspection_cache s1)\<lparr>next_address := Suc (Suc ref),
          store := (store s1)(Suc ref \<mapsto> d),
          resource_methods_cache := Some (Suc ref)\<rparr>)"
    using inspect_sdk_methods_fresh [OF cleared d] nxt
    by (simp add: clear_inspection_cache_def)
  show ?thesis
    using second third d st by simp
qed

theorem discovery_cache_identity_witness:
  "resource_methods_cache initial_state = None
   \<and> fst (inspect_sdk_methods small_client initial_state) = Some 0
   \<and> fst (inspect_sdk_methods small_client
             (snd (inspect_sdk_methods small_client initial_state))) = Some 0
   \<and> walk_sdk small_client = Some [(''cloud.instances'', [(''create'', ''create instance'')])]"
proof -
  have walk: "walk_sdk small_client =
      Some [(''cloud.instances'', [(''create'', ''create instance'')])]"
    by (simp add: walk_sdk_def small_client_def base_module_name_def in_base_module_def
          startswith_def skip_top_level_def skip_names_def inspect_own_methods_def
          current_path_of_def)
  have empty: "resource_methods_cache initial_state = None"
    by (simp add: initial_state_def)
  define s1 where "s1 = initial_state\<lparr>next_address := Suc 0,
      store := (store initial_state)(0 \<mapsto>
        [(''cloud.instances'', [(''create'', ''create instance'')])]),
      resource_methods_cache := Some 0\<rparr>"
  have first: "inspect_sdk_methods small_client initial_state = (Some 0, s1)"
    unfolding inspect_sdk_methods_fresh [OF empty walk] s1_def
    by (simp add: initial_state_def)
  from discovery_cache_identity [OF empty first]
  have "inspect_sdk_methods small_client s1 = (Some 0, s1)"
    by blast
  with empty walk show ?thesis
    by (simp add: first)
qed


section \<open>JSON conversion of the special parameters\<close>











section \<open>Keys of the fragments\<close>

lemma has_key_simps:
  "has_key [] k = False"
  "has_key ((k', v) # d) k = (k' = k \<or> has_key d k)"
  by (auto simp: has_key_def)






section \<open>Outcomes of the translator\<close>







lemma collect_first_raises: "f x = Inl e \<Longrightarrow> collect f (x # xs) = Inl e"
  by (simp add: sum_cons_def)


lemma convert_at_numeral:
  "convert_param_type_to_schema_type R (numeral n) =
     convert_body R (convert_param_type_to_schema_type R (pred_numeral n))"
  by (simp add: numeral_eq_Suc)

















section \<open>A union with one remaining member\<close>

text \<open>
  Claim C5, as the code has it.  When one member remains after \<^verbatim>\<open>NoneType\<close> and \<^verbatim>\<open>NotGiven\<close>
  are taken out of a union that had one of them, the call for the union ends as the
  nested call for that member does: with the member's exception, or with the member's
  fragment and a changed description: \<^verbatim>\<open> (optional)\<close> is appended when the member's fragment
  has a description, and the description is set to \<^verbatim>\<open>Optional\<close> when it has none.  For
  \<^verbatim>\<open>Optional[str]\<close>, with two nested calls allowed or more, the fragment is
  \<^verbatim>\<open>{"type": "string", "description": "Optional"}\<close>.
\<close>

theorem optional_member_description:
  assumes "non_none_args args = [member]" and "is_optional args"
  shows "convert_param_type_to_schema_type R (Suc depth) (TUnion args) param_name =
           (case convert_param_type_to_schema_type R depth member param_name of
              Inl e \<Rightarrow> Inl e
            | Inr schema \<Rightarrow>
                Inr (if has_key schema ''description''
                     then dict_set schema ''description''
                            (JStr (description_text schema @ '' (optional)''))
                     else dict_set schema ''description'' (JStr ''Optional'')))
         \<and> convert_param_type_to_schema_type R (Suc (Suc depth)) (TUnion [TStr, TNone])
             param_name
           = Inr [(''type'', JStr ''string''), (''description'', JStr ''Optional'')]"
proof -
  have general: "convert_param_type_to_schema_type R (Suc depth) (TUnion args) param_name =
      on_return (optional_note True)
        (convert_param_type_to_schema_type R depth member param_name)"
    using assms
    by (cases "convert_param_type_to_schema_type R depth member param_name")
      (simp_all add: union_schema_def member_param_name_def on_return_def sum_cons_def)
  have str: "convert_param_type_to_schema_type R (Suc (Suc depth)) (TUnion [TStr, TNone])
      param_name
      = Inr [(''type'', JStr ''string''), (''description'', JStr ''Optional'')]"
    by (simp add: non_none_args_def is_none_marker_def is_optional_def union_schema_def
          optional_note_def has_key_simps member_param_name_def on_return_def sum_cons_def)
  from general str show ?thesis
    by (simp add: optional_note_def on_return_def split: sum.splits)
qed

theorem optional_member_description_witness:
  "non_none_args [TLiteral [LitStr ''ssd''], TNone] = [TLiteral [LitStr ''ssd'']]
   \<and> is_optional [TLiteral [LitStr ''ssd''], TNone]
   \<and> convert_param_type_to_schema_type sample_reflection 1000
        (TUnion [TLiteral [LitStr ''ssd''], TNone]) ''kind'' =
       Inr [(''type'', JStr ''string''), (''enum'', JList [JLit (LitStr ''ssd'')]),
            (''description'',
             JStr (''Must be one of: '' @ [CHR 0x27] @ ''ssd'' @ [CHR 0x27] @ '' (optional)''))]"
proof -
  have members: "non_none_args [TLiteral [LitStr ''ssd''], TNone] = [TLiteral [LitStr ''ssd'']]"
    by (simp add: non_none_args_def is_none_marker_def)
  have optional: "is_optional [TLiteral [LitStr ''ssd''], TNone]"
    by (simp add: is_optional_def is_none_marker_def)
  have member: "convert_param_type_to_schema_type sample_reflection 999
      (TLiteral [LitStr ''ssd'']) ''kind''
      = Inr [(''type'', JStr ''string''), (''enum'', JList [JLit (LitStr ''ssd'')]),
             (''description'', JStr (''Must be one of: '' @ [CHR 0x27] @ ''ssd'' @ [CHR 0x27]))]"
    by (simp add: convert_at_numeral literal_schema_def sample_reflection_def)
  from optional_member_description [OF members optional, of sample_reflection 999 "''kind''"]
  have "convert_param_type_to_schema_type sample_reflection 1000
        (TUnion [TLiteral [LitStr ''ssd''], TNone]) ''kind'' =
       Inr [(''type'', JStr ''string''), (''enum'', JList [JLit (LitStr ''ssd'')]),
            (''description'',
             JStr (''Must be one of: '' @ [CHR 0x27] @ ''ssd'' @ [CHR 0x27] @ '' (optional)''))]"
    unfolding member by (simp add: has_key_simps description_text_def)
  with members optional show ?thesis by simp
qed

theorem optional_string_description:
  "convert_param_type_to_schema_type sample_reflection 1000 (TUnion [TStr, TNone]) ''name'' =
     Inr [(''type'', JStr ''string''), (''description'', JStr ''Optional'')]
   \<and> description_text [(''type'', JStr ''string''), (''description'', JStr ''Optional'')]
     = ''Optional''
   \<and> \<not> contains ''Optional'' ''(optional)''
   \<and> \<not> contains ''Optional'' ''optional''"
  by (simp add: convert_at_numeral non_none_args_def is_none_marker_def is_optional_def
        union_schema_def optional_note_def has_key_simps member_param_name_def
        description_text_def startswith_def on_return_def sum_cons_def)


section \<open>What a registered tool carries\<close>

lemma annotation_loop_other:
  "k \<notin> par_name ` set params \<Longrightarrow>
   map_of (foldl (\<lambda>annotations p. dict_set annotations (par_name p) (f p)) d params) k
     = map_of d k"
  by (induction params arbitrary: d) (auto simp: map_of_dict_set)

lemma annotation_loop_at:
  "p \<in> set params \<Longrightarrow> distinct (map par_name params) \<Longrightarrow>
   map_of (foldl (\<lambda>annotations p. dict_set annotations (par_name p) (f p)) d params)
     (par_name p) = Some (f p)"
proof (induction params arbitrary: d)
  case Nil
  then show ?case by simp
next
  case (Cons q params)
  show ?case
  proof (cases "q = p")
    case True
    with Cons.prems have "par_name p \<notin> par_name ` set params" by auto
    with True show ?thesis
      by (simp add: annotation_loop_other map_of_dict_set)
  next
    case False
    with Cons show ?thesis by auto
  qed
qed

lemma simple_annotations_at:
  assumes "p \<in> set params" and "distinct (map par_name params)" and "par_name p \<noteq> ''return''"
  shows "map_of (simple_annotations params) (par_name p)
           = Some (if has_default p then TUnion [TStr, TNone] else TStr)"
  using assms
  by (simp add: simple_annotations_def map_of_dict_set annotation_loop_at)

text \<open>
  Claim C3, as the code has it.  For a selected method the registered tool carries, for
  each parameter of the signature, the annotation \<^verbatim>\<open>str\<close> when the parameter has no default
  and \<^verbatim>\<open>str | None\<close> when it has one; the declared type of the parameter is not looked at
  and the translator is not called.  So the carried annotation is \<^verbatim>\<open>str\<close> exactly for the
  parameters without a default.
\<close>

theorem registered_tool_annotations:
  assumes "(full_name, method) \<in> set sdk_methods"
      and "generate_short_tool_name full_name \<in> set allowed"
      and "p \<in> set (parameters method)"
      and "distinct (map par_name (parameters method))"
      and "par_name p \<noteq> ''return''"
  shows "make_tool full_name method \<in> set (register_tools allowed sdk_methods)
         \<and> map_of (registered_annotations (make_tool full_name method)) (par_name p)
             = Some (if has_default p then TUnion [TStr, TNone] else TStr)
         \<and> (map_of (registered_annotations (make_tool full_name method)) (par_name p) = Some TStr
              \<longleftrightarrow> \<not> has_default p)"
proof -
  have "make_tool full_name method \<in> set (register_tools allowed sdk_methods)"
    using assms(1,2) by (force simp: register_tools_def)
  moreover have "map_of (registered_annotations (make_tool full_name method)) (par_name p)
      = Some (if has_default p then TUnion [TStr, TNone] else TStr)"
    using simple_annotations_at [OF assms(3,4,5)] by (simp add: make_tool_def)
  ultimately show ?thesis by simp
qed

theorem registered_tool_annotations_witness:
  "(''cloud.instances.create'', sample_method TInt)
     \<in> set [(''cloud.instances.create'', sample_method TInt)]
   \<and> generate_short_tool_name ''cloud.instances.create'' \<in> set [''cloud.insts.new'']
   \<and> distinct (map par_name (parameters (sample_method TInt)))
   \<and> make_tool ''cloud.instances.create'' (sample_method TInt)
       \<in> set (register_tools [''cloud.insts.new'']
                [(''cloud.instances.create'', sample_method TInt)])
   \<and> map_of (registered_annotations (make_tool ''cloud.instances.create'' (sample_method TInt)))
        ''size'' = Some TStr
   \<and> map_of (registered_annotations (make_tool ''cloud.instances.create'' (sample_method TInt)))
        ''name'' = Some (TUnion [TStr, TNone])"
proof -
  let ?size = "\<lparr>par_name = ''size'', annotation = TInt, has_default = False\<rparr>"
  let ?name = "\<lparr>par_name = ''name'', annotation = TStr, has_default = True\<rparr>"
  have listed: "(''cloud.instances.create'', sample_method TInt)
      \<in> set [(''cloud.instances.create'', sample_method TInt)]"
    by simp
  have short: "generate_short_tool_name ''cloud.instances.create'' \<in> set [''cloud.insts.new'']"
    by (simp add: short_name_eval shortening_rules_at)
  have params: "?size \<in> set (parameters (sample_method TInt))"
    "?name \<in> set (parameters (sample_method TInt))"
    by (simp_all add: sample_method_def)
  have names: "distinct (map par_name (parameters (sample_method TInt)))"
    by (simp add: sample_method_def)
  have not_return: "par_name ?size \<noteq> ''return''" "par_name ?name \<noteq> ''return''"
    by simp_all
  from registered_tool_annotations [OF listed short params(1) names not_return(1)]
    registered_tool_annotations [OF listed short params(2) names not_return(2)]
    listed short names
  show ?thesis by simp
qed

theorem registered_annotation_ignores_declared_type:
  "registered_annotations (make_tool ''cloud.instances.create'' (sample_method TInt)) =
     [(''size'', TStr), (''name'', TUnion [TStr, TNone]), (''return'', TAny)]
   \<and> registered_annotations (make_tool ''cloud.instances.create'' (sample_method (TContainer [TStr])))
     = registered_annotations (make_tool ''cloud.instances.create'' (sample_method TInt))
   \<and> convert_param_type_to_schema_type sample_reflection 1000 TInt ''size''
     = Inr [(''type'', JStr ''integer'')]
   \<and> convert_param_type_to_schema_type sample_reflection 1000 TStr ''size''
     \<noteq> convert_param_type_to_schema_type sample_reflection 1000 TInt ''size''
   \<and> convert_param_type_to_schema_type sample_reflection 1000 (TContainer [TStr]) ''size''
     \<noteq> convert_param_type_to_schema_type sample_reflection 1000 TInt ''size''"
  by (simp add: convert_at_numeral make_tool_def sample_method_def simple_annotations_def
        array_schema_def is_special_parameter_def GCORE_SPECIAL_PARAMETERS_def Let_def
        on_return_def)

end
